theory Spec2Isabelle
  imports Complex_Main "HOL-Library.Sublist" "HOL-Library.Log_Nat"
begin

section \<open>Python values the search client handles\<close>

text \<open>
  A Python \<open>str\<close> is a \<open>string\<close>, one \<open>char\<close> per code point. An exception is
  a value: its class and the text \<open>str(e)\<close> gives. Every class below is a subclass
  of \<open>Exception\<close>, so \<open>except Exception\<close> catches every \<open>exn\<close>.
  \<open>RequestsJSONDecodeError\<close> is the class \<open>requests\<close> raises from
  \<open>response.json()\<close>: a subclass of both \<open>RequestException\<close> and
  \<open>json.JSONDecodeError\<close>. \<open>PlainException\<close> is \<open>Exception\<close> itself, and
  \<open>OtherError\<close> is any class not named here.
\<close>

datatype exn_class =
    TypeError | AttributeError | ValueError | OverflowError | IndexError
  | JSONDecodeError | RequestException | RequestsJSONDecodeError
  | HTTPStatusError | PlainException | UnicodeEncodeError | UnboundLocalError | OtherError

datatype exn = Exn exn_class string

fun exn_class_of :: "exn \<Rightarrow> exn_class" where
  "exn_class_of (Exn c m) = c"

fun exn_str :: "exn \<Rightarrow> string" where
  "exn_str (Exn c m) = m"

definition is_RequestException :: "exn \<Rightarrow> bool" where
  "is_RequestException e \<longleftrightarrow> exn_class_of e \<in> {RequestException, RequestsJSONDecodeError}"

definition is_JSONDecodeError :: "exn \<Rightarrow> bool" where
  "is_JSONDecodeError e \<longleftrightarrow> exn_class_of e \<in> {JSONDecodeError, RequestsJSONDecodeError}"

text \<open>
  A Python \<open>float\<close>: a finite value (a rational; \<open>0.0\<close> and \<open>-0.0\<close> are both
  \<open>Finite 0\<close>), an infinity or a NaN. Every double is one of these values.
\<close>

datatype pyfloat = Finite rat | PosInf | NegInf | NaN

text \<open>What \<open>json.loads\<close> and \<open>response.json()\<close> build; a dict keeps its keys in order.\<close>

datatype json =
    JNull
  | JBool bool
  | JInt int
  | JFloat pyfloat
  | JStr string
  | JList "json list"
  | JDict "(string \<times> json) list"

text \<open>
  What the interpreter and its settings decide is a parameter: the JSON decoder,
  \<open>float\<close> applied to a \<open>str\<close>, \<open>repr\<close> of a \<open>float\<close> (never empty: its first
  character and the rest), \<open>repr\<close> of a \<open>str\<close>, \<open>str.title\<close>, the characters
  beyond ASCII that \<open>sys.stdout\<close> can encode, and the limit
  \<open>sys.get_int_max_str_digits()\<close> on the digits of an \<open>int\<close> turned into a
  \<open>str\<close> (0 for no limit, as before Python 3.11).
\<close>

record py =
  json_loads :: "string \<Rightarrow> exn + json"
  float_of_str :: "string \<Rightarrow> exn + pyfloat"
  repr_float :: "pyfloat \<Rightarrow> char \<times> string"
  repr_str :: "string \<Rightarrow> string"
  str_title :: "string \<Rightarrow> string"
  stdout_encodes :: "char \<Rightarrow> bool"
  int_max_str_digits :: nat

subsection \<open>Truthiness, \<open>str\<close>, \<open>print\<close>, \<open>float\<close>, slices\<close>

fun truthy_float :: "pyfloat \<Rightarrow> bool" where
  "truthy_float (Finite q) = (q \<noteq> 0)"
| "truthy_float PosInf = True"
| "truthy_float NegInf = True"
| "truthy_float NaN = True"

fun truthy :: "json \<Rightarrow> bool" where
  "truthy JNull = False"
| "truthy (JBool b) = b"
| "truthy (JInt n) = (n \<noteq> 0)"
| "truthy (JFloat f) = truthy_float f"
| "truthy (JStr s) = (s \<noteq> [])"
| "truthy (JList xs) = (xs \<noteq> [])"
| "truthy (JDict kvs) = (kvs \<noteq> [])"

text \<open>\<open>a or b\<close> on two values already computed.\<close>

definition py_or :: "json \<Rightarrow> json \<Rightarrow> json" where
  "py_or a b = (if truthy a then a else b)"

text \<open>\<open>d.get(k)\<close> gives \<open>None\<close> for a missing key, \<open>d.get(k, default)\<close> the default.\<close>

definition dict_get :: "(string \<times> json) list \<Rightarrow> string \<Rightarrow> json" where
  "dict_get d k = (case map_of d k of None \<Rightarrow> JNull | Some v \<Rightarrow> v)"

definition dict_get_default :: "(string \<times> json) list \<Rightarrow> string \<Rightarrow> json \<Rightarrow> json" where
  "dict_get_default d k dflt = (case map_of d k of None \<Rightarrow> dflt | Some v \<Rightarrow> v)"

definition dict_has :: "(string \<times> json) list \<Rightarrow> string \<Rightarrow> bool" where
  "dict_has d k \<longleftrightarrow> map_of d k \<noteq> None"

definition digit_char :: "nat \<Rightarrow> char" where
  "digit_char d = char_of (48 + d)"

text \<open>The decimal digits of a natural number.\<close>

fun str_nat :: "nat \<Rightarrow> string" where
  "str_nat n = (if n < 10 then [digit_char n] else str_nat (n div 10) @ [digit_char (n mod 10)])"

declare str_nat.simps [simp del]

text \<open>
  \<open>str(i)\<close> of an \<open>int\<close>. With a limit set, an \<open>int\<close> of more digits raises
  \<open>ValueError\<close>; the interpreter accepts no limit below 640 other than 0.
\<close>

definition digit_limit :: "py \<Rightarrow> nat" where
  "digit_limit p = (if int_max_str_digits p = 0 then 0 else max 640 (int_max_str_digits p))"

definition str_int :: "py \<Rightarrow> int \<Rightarrow> exn + string" where
  "str_int p i =
     (let digits = str_nat (nat \<bar>i\<bar>)
      in if digit_limit p \<noteq> 0 \<and> digit_limit p < length digits
         then Inl (Exn ValueError
                (''Exceeds the limit ('' @ str_nat (digit_limit p)
                 @ '' digits) for integer string conversion''))
         else Inr (if i < 0 then CHR ''-'' # digits else digits))"

fun join :: "string \<Rightarrow> string list \<Rightarrow> string" where
  "join sep [] = []"
| "join sep [x] = x"
| "join sep (x # y # ys) = x @ sep @ join sep (y # ys)"

text \<open>The values of a list of computations, or the first exception.\<close>

fun sequence :: "(exn + 'a) list \<Rightarrow> exn + 'a list" where
  "sequence [] = Inr []"
| "sequence (x # xs) =
     (case x of
        Inl e \<Rightarrow> Inl e
      | Inr v \<Rightarrow> (case sequence xs of Inl e \<Rightarrow> Inl e | Inr vs \<Rightarrow> Inr (v # vs)))"

text \<open>\<open>repr(v)\<close>; it raises where an \<open>int\<close> inside \<open>v\<close> has too many digits.\<close>

fun py_repr :: "py \<Rightarrow> json \<Rightarrow> exn + string" where
  "py_repr p JNull = Inr ''None''"
| "py_repr p (JBool b) = Inr (if b then ''True'' else ''False'')"
| "py_repr p (JInt n) = str_int p n"
| "py_repr p (JFloat f) = Inr (fst (repr_float p f) # snd (repr_float p f))"
| "py_repr p (JStr s) = Inr (repr_str p s)"
| "py_repr p (JList xs) =
     (case sequence (map (py_repr p) xs) of
        Inl e \<Rightarrow> Inl e
      | Inr shown \<Rightarrow> Inr (''['' @ join '', '' shown @ '']''))"
| "py_repr p (JDict kvs) =
     (case sequence (map (\<lambda>kv. case py_repr p (snd kv) of
                                 Inl e \<Rightarrow> Inl e
                               | Inr s \<Rightarrow> Inr (repr_str p (fst kv) @ '': '' @ s)) kvs) of
        Inl e \<Rightarrow> Inl e
      | Inr shown \<Rightarrow> Inr (''{'' @ join '', '' shown @ ''}''))"

text \<open>\<open>str(v)\<close>, which is also what an f-string puts for \<open>{v}\<close>.\<close>

definition py_str :: "py \<Rightarrow> json \<Rightarrow> exn + string" where
  "py_str p v = (case v of JStr s \<Rightarrow> Inr s | _ \<Rightarrow> py_repr p v)"

text \<open>
  \<open>print(s)\<close> raises \<open>UnicodeEncodeError\<close> when \<open>sys.stdout\<close> cannot encode a
  character of \<open>s\<close>; ASCII is always encoded. The text of that exception names the
  codec, the character as an escape and its position, and is ASCII; the model keeps
  the position. \<open>None\<close> means that the line was written.
\<close>

definition encodable :: "py \<Rightarrow> char \<Rightarrow> bool" where
  "encodable p c \<longleftrightarrow> (of_char c :: nat) < 128 \<or> stdout_encodes p c"

definition py_print :: "py \<Rightarrow> string \<Rightarrow> exn option" where
  "py_print p s =
     (if list_all (encodable p) s then None
      else Some (Exn UnicodeEncodeError
                  (''codec can't encode character in position ''
                   @ str_nat (length (takeWhile (encodable p) s)))))"

text \<open>A \<open>print\<close> followed by the rest of a block.\<close>

definition printing :: "py \<Rightarrow> string \<Rightarrow> exn + 'a \<Rightarrow> exn + 'a" where
  "printing p s rest = (case py_print p s of Some e \<Rightarrow> Inl e | None \<Rightarrow> rest)"

text \<open>
  \<open>float(n)\<close> of an \<open>int\<close>: exact up to \<open>2^53\<close>, beyond that rounded to 53
  significant bits, ties to even, and \<open>OverflowError\<close> from \<open>2^1024\<close> on.
\<close>

definition float_of_int :: "int \<Rightarrow> exn + pyfloat" where
  "float_of_int n =
     (let a = \<bar>n\<bar> in
      if a \<le> 2 ^ 53 then Inr (Finite (of_int n))
      else
        let s = floorlog 2 (nat a) - 53;
            q = a div 2 ^ s;
            r = a mod 2 ^ s;
            h = 2 ^ (s - 1);
            q' = (if h < r \<or> (r = h \<and> odd q) then q + 1 else q);
            v = q' * 2 ^ s
        in if 2 ^ 1024 \<le> v
           then Inl (Exn OverflowError ''int too large to convert to float'')
           else Inr (Finite (of_int (sgn n * v))))"

definition quoted :: "string \<Rightarrow> string" where
  "quoted s = CHR 0x27 # s @ [CHR 0x27]"

definition float_TypeError :: "string \<Rightarrow> exn" where
  "float_TypeError tp =
     Exn TypeError (''float() argument must be a string or a real number, not '' @ quoted tp)"

fun py_float :: "py \<Rightarrow> json \<Rightarrow> exn + pyfloat" where
  "py_float p (JFloat f) = Inr f"
| "py_float p (JInt n) = float_of_int n"
| "py_float p (JBool b) = Inr (Finite (if b then 1 else 0))"
| "py_float p (JStr s) = float_of_str p s"
| "py_float p JNull = Inl (float_TypeError ''NoneType'')"
| "py_float p (JList xs) = Inl (float_TypeError ''list'')"
| "py_float p (JDict kvs) = Inl (float_TypeError ''dict'')"

text \<open>\<open>xs[:m]\<close>: a negative bound counts from the end.\<close>

definition slice_to :: "int \<Rightarrow> 'a list \<Rightarrow> 'a list" where
  "slice_to m xs = (if 0 \<le> m then take (nat m) xs else take (length xs - nat (- m)) xs)"

text \<open>
  \<open>k in v\<close> for a \<open>str\<close> \<open>k\<close>: a key of a dict, an element of a list, a substring
  of a \<open>str\<close>; the other values are not iterable.
\<close>

definition type_name :: "json \<Rightarrow> string" where
  "type_name v = (case v of JNull \<Rightarrow> ''NoneType'' | JBool b \<Rightarrow> ''bool'' | JInt n \<Rightarrow> ''int''
     | JFloat f \<Rightarrow> ''float'' | JStr s \<Rightarrow> ''str'' | JList xs \<Rightarrow> ''list'' | JDict d \<Rightarrow> ''dict'')"

definition py_contains :: "string \<Rightarrow> json \<Rightarrow> exn + bool" where
  "py_contains k v =
     (case v of
        JDict d \<Rightarrow> Inr (dict_has d k)
      | JList xs \<Rightarrow> Inr (List.member xs (JStr k))
      | JStr s \<Rightarrow> Inr (sublist k s)
      | _ \<Rightarrow> Inl (Exn TypeError (''argument of type '' @ quoted (type_name v) @ '' is not iterable'')))"

text \<open>\<open>v[k]\<close> for a \<open>str\<close> \<open>k\<close>, on a dict known to have the key or on another value.\<close>

definition py_getitem :: "json \<Rightarrow> string \<Rightarrow> exn + json" where
  "py_getitem v k =
     (case v of
        JDict d \<Rightarrow> Inr (dict_get d k)
      | JList xs \<Rightarrow> Inl (Exn TypeError ''list indices must be integers or slices, not str'')
      | JStr s \<Rightarrow> Inl (Exn TypeError (''string indices must be integers, not '' @ quoted ''str''))
      | _ \<Rightarrow> Inl (Exn TypeError (quoted (type_name v) @ '' object is not subscriptable'')))"

text \<open>\<open>v.get(k, default)\<close>: only a dict has the method.\<close>

definition py_get_default :: "json \<Rightarrow> string \<Rightarrow> json \<Rightarrow> exn + json" where
  "py_get_default v k dflt =
     (case v of
        JDict d \<Rightarrow> Inr (dict_get_default d k dflt)
      | _ \<Rightarrow> Inl (Exn AttributeError
                 (quoted (type_name v) @ '' object has no attribute '' @ quoted ''get'')))"

text \<open>
  The items a \<open>for\<close> loop sees in \<open>v[:m]\<close>: the elements of a list, the characters of
  a \<open>str\<close>; a dict cannot be sliced (\<open>TypeError\<close>, \<open>KeyError\<close> from Python 3.12 on),
  the other values cannot be subscripted.
\<close>

definition py_slice_items :: "json \<Rightarrow> int \<Rightarrow> exn + json list" where
  "py_slice_items v m =
     (case v of
        JList xs \<Rightarrow> Inr (slice_to m xs)
      | JStr s \<Rightarrow> Inr (map (\<lambda>c. JStr [c]) (slice_to m s))
      | JDict d \<Rightarrow> Inl (Exn TypeError (''unhashable type: '' @ quoted ''slice''))
      | _ \<Rightarrow> Inl (Exn TypeError (quoted (type_name v) @ '' object is not subscriptable'')))"

section \<open>The search client (\<open>web_search.py\<close>)\<close>

record SearchResult =
  title :: string
  url :: string
  description :: string
  relevance_score :: pyfloat

text \<open>
  Line 255: \<open>float(item.get("relevance_score", 0.0)) or float(item.get("score", 0.0))\<close>.
  The right operand is evaluated only when the left one is falsy.
\<close>

definition relevance_of :: "py \<Rightarrow> (string \<times> json) list \<Rightarrow> exn + pyfloat" where
  "relevance_of p item =
     (case py_float p (dict_get_default item ''relevance_score'' (JFloat (Finite 0))) of
        Inl e \<Rightarrow> Inl e
      | Inr a \<Rightarrow>
          if truthy_float a then Inr a
          else py_float p (dict_get_default item ''score'' (JFloat (Finite 0))))"

text \<open>
  The \<open>try\<close> block of \<open>_create_search_result\<close> (lines 240 to 263); the arguments of
  the constructor are evaluated from left to right.
\<close>

definition create_search_result_try ::
  "py \<Rightarrow> (string \<times> json) list \<Rightarrow> exn + SearchResult option" where
  "create_search_result_try p item =
     (let title_v = py_or (py_or (py_or (dict_get item ''title'') (dict_get item ''name''))
                       (dict_get item ''heading'')) (JStr ''Search Result'');
          url_v = py_or (py_or (py_or (dict_get item ''url'') (dict_get item ''link''))
                       (dict_get item ''href'')) (JStr []);
          description_v = py_or (py_or (py_or (py_or (dict_get item ''description'')
                       (dict_get item ''snippet'')) (dict_get item ''summary''))
                       (dict_get item ''content'')) (JStr [])
      in case relevance_of p item of
           Inl e \<Rightarrow> Inl e
         | Inr score_v \<Rightarrow>
             if truthy url_v \<and> truthy title_v
             then (case py_str p title_v of
                     Inl e \<Rightarrow> Inl e
                   | Inr title_s \<Rightarrow>
                       (case py_str p url_v of
                          Inl e \<Rightarrow> Inl e
                        | Inr url_s \<Rightarrow>
                            (case py_str p description_v of
                               Inl e \<Rightarrow> Inl e
                             | Inr description_s \<Rightarrow>
                                 Inr (Some \<lparr>title = take 200 title_s,
                                            url = url_s,
                                            description = take 300 description_s,
                                            relevance_score = score_v\<rparr>))))
             else Inr None)"

text \<open>
  \<open>_create_search_result\<close>: the handler formats the item and the exception, prints
  the line and falls through to \<open>return None\<close>. What the formatting or the
  \<open>print\<close> raises leaves the function.
\<close>

definition create_search_result ::
  "py \<Rightarrow> (string \<times> json) list \<Rightarrow> exn + SearchResult option" where
  "create_search_result p item =
     (case create_search_result_try p item of
        Inr r \<Rightarrow> Inr r
      | Inl e \<Rightarrow>
          (case py_repr p (JDict item) of
             Inl e' \<Rightarrow> Inl e'
           | Inr shown \<Rightarrow>
               printing p (''Error creating search result from '' @ shown @ '': '' @ exn_str e)
                 (Inr None)))"

text \<open>\<open>_parse_text_results\<close>: one degraded result holding the text.\<close>

definition parse_text_results :: "string \<Rightarrow> string \<Rightarrow> SearchResult list" where
  "parse_text_results txt query =
     [\<lparr>title = ''Search results for: '' @ query,
       url = [],
       description = take 300 txt @ (if 300 < length txt then ''...'' else []),
       relevance_score = Finite (1 / 2)\<rparr>]"

text \<open>
  The loop of \<open>_parse_search_results\<close> over the sliced items, \<open>results\<close> being the
  list it appends to. It gives the list as the loop leaves it, and the exception that
  ended the loop if one did.
\<close>

fun append_results ::
  "py \<Rightarrow> json list \<Rightarrow> SearchResult list \<Rightarrow> SearchResult list \<times> exn option" where
  "append_results p [] results = (results, None)"
| "append_results p (item # items) results =
     (case item of
        JDict d \<Rightarrow>
          (case create_search_result p d of
             Inl e \<Rightarrow> (results, Some e)
           | Inr (Some r) \<Rightarrow> append_results p items (results @ [r])
           | Inr None \<Rightarrow> append_results p items results)
      | _ \<Rightarrow> append_results p items results)"

text \<open>
  The \<open>try\<close> block of \<open>_parse_search_results\<close>: \<open>results\<close> as the block leaves
  it, and the exception that ended it if one did.
\<close>

definition parse_search_results_try ::
  "py \<Rightarrow> json \<Rightarrow> int \<Rightarrow> SearchResult list \<times> exn option" where
  "parse_search_results_try p data max_results =
     (case data of
        JDict d \<Rightarrow>
          if dict_has d ''results'' then
            (case py_slice_items (dict_get d ''results'') max_results of
               Inl e \<Rightarrow> ([], Some e)
             | Inr items \<Rightarrow> append_results p items [])
          else if dict_has d ''links'' then
            (case py_slice_items (dict_get d ''links'') max_results of
               Inl e \<Rightarrow> ([], Some e)
             | Inr items \<Rightarrow> append_results p items [])
          else if dict_has d ''url'' then
            (case create_search_result p d of
               Inl e \<Rightarrow> ([], Some e)
             | Inr (Some r) \<Rightarrow> ([r], None)
             | Inr None \<Rightarrow> ([], None))
          else ([], None)
      | JList xs \<Rightarrow> append_results p (slice_to max_results xs) []
      | _ \<Rightarrow> ([], None))"

text \<open>
  \<open>_parse_search_results\<close>: the handler prints a line and the function returns
  \<open>results\<close> as it is.
\<close>

definition parse_search_results :: "py \<Rightarrow> json \<Rightarrow> int \<Rightarrow> exn + SearchResult list" where
  "parse_search_results p data max_results =
     (case parse_search_results_try p data max_results of
        (results, None) \<Rightarrow> Inr results
      | (results, Some e) \<Rightarrow>
          printing p (''Error parsing search results: '' @ exn_str e) (Inr results))"

subsection \<open>The request and the response\<close>

record http_response =
  status_code :: int
  body_text :: string

text \<open>
  What the client does not decide: its endpoint, the request id \<open>uuid.uuid4()\<close>
  gives, the cutoff date
  \<open>(datetime.now(timezone.utc) - timedelta(days=days_back)).strftime(...)\<close> (it raises
  \<open>OverflowError\<close> for a \<open>days_back\<close> out of range), the outcome of
  \<open>session.post\<close> for a request body, and \<open>response.json()\<close>.
\<close>

record net =
  endpoint_url :: string
  new_uuid :: string
  start_date :: "int \<Rightarrow> exn + string"
  session_post :: "json \<Rightarrow> exn + http_response"
  response_json :: "http_response \<Rightarrow> exn + json"

text \<open>The three lines \<open>_send_mcp_request\<close> prints before it posts (lines 70 to 72).\<close>

definition announce_request :: "py \<Rightarrow> net \<Rightarrow> string \<Rightarrow> json \<Rightarrow> exn + unit" where
  "announce_request p n method params =
     printing p (''Sending MCP request to '' @ endpoint_url n)
       (printing p (''Method: '' @ method)
          (case py_str p params of
             Inl e \<Rightarrow> Inl e
           | Inr shown \<Rightarrow> printing p (''Params: '' @ shown) (Inr ())))"

text \<open>
  \<open>_send_mcp_request\<close> after \<open>session.post\<close> has returned (lines 80 to 94): the
  status check, the decoding, the \<open>error\<close> member. Line 88 prints
  \<open>json.dumps(response_data, indent=2)\<close>, which is ASCII and raises where \<open>repr\<close>
  does.
\<close>

definition check_response :: "py \<Rightarrow> net \<Rightarrow> http_response \<Rightarrow> exn + json" where
  "check_response p n response =
     (case str_int p (status_code response) of
        Inl e \<Rightarrow> Inl e
      | Inr code \<Rightarrow>
          printing p (''Response status: '' @ code)
            (if status_code response \<noteq> 200
             then printing p (''HTTP error: '' @ code)
                    (printing p (''Response body: '' @ body_text response)
                       (Inl (Exn PlainException
                              (''HTTP '' @ code @ '': '' @ body_text response))))
             else
               case response_json n response of
                 Inl e \<Rightarrow> Inl e
               | Inr response_data \<Rightarrow>
                   (case py_repr p response_data of
                      Inl e \<Rightarrow> Inl e
                    | Inr dumped \<Rightarrow>
                        (case py_contains ''error'' response_data of
                           Inl e \<Rightarrow> Inl e
                         | Inr False \<Rightarrow> Inr response_data
                         | Inr True \<Rightarrow>
                             (case py_getitem response_data ''error'' of
                                Inl e \<Rightarrow> Inl e
                              | Inr err \<Rightarrow>
                                  (case py_get_default err ''message''
                                          (JStr ''Unknown MCP error'') of
                                     Inl e \<Rightarrow> Inl e
                                   | Inr error_msg \<Rightarrow>
                                       (case py_str p error_msg of
                                          Inl e \<Rightarrow> Inl e
                                        | Inr msg \<Rightarrow>
                                            Inl (Exn PlainException
                                                   (''MCP Error: '' @ msg)))))))))"

text \<open>
  The two \<open>except\<close> clauses of \<open>_send_mcp_request\<close>, in their order: each prints
  and raises an \<open>Exception\<close>; any other exception passes through. The second clause
  also prints \<open>response.text\<close>, a name that is bound only once \<open>session.post\<close>
  has returned. The result is the exception that leaves the function.
\<close>

definition reraise :: "py \<Rightarrow> http_response option \<Rightarrow> exn \<Rightarrow> exn" where
  "reraise p response e =
     (if is_RequestException e
      then (case py_print p (''Network error: '' @ exn_str e) of
              Some e' \<Rightarrow> e'
            | None \<Rightarrow>
                Exn PlainException
                  (''Network error communicating with MCP server: '' @ exn_str e))
      else if is_JSONDecodeError e
      then (case py_print p (''JSON decode error: '' @ exn_str e) of
              Some e' \<Rightarrow> e'
            | None \<Rightarrow>
                (case response of
                   None \<Rightarrow>
                     Exn UnboundLocalError
                       (''cannot access local variable '' @ quoted ''response''
                        @ '' where it is not associated with a value'')
                 | Some r \<Rightarrow>
                     (case py_print p (''Response text: '' @ body_text r) of
                        Some e' \<Rightarrow> e'
                      | None \<Rightarrow>
                          Exn PlainException
                            (''Invalid JSON response from MCP server: '' @ exn_str e))))
      else e)"

definition send_mcp_request :: "py \<Rightarrow> net \<Rightarrow> string \<Rightarrow> json \<Rightarrow> exn + json" where
  "send_mcp_request p n method params =
     (let request_data = JDict [(''jsonrpc'', JStr ''2.0''),
                                (''id'', JStr (new_uuid n)),
                                (''method'', JStr method),
                                (''params'', py_or params (JDict []))]
      in case announce_request p n method params of
           Inl e \<Rightarrow> Inl (reraise p None e)
         | Inr u \<Rightarrow>
             (case session_post n request_data of
                Inl e \<Rightarrow> Inl (reraise p None e)
              | Inr response \<Rightarrow>
                  (case check_response p n response of
                     Inl e \<Rightarrow> Inl (reraise p (Some response) e)
                   | Inr response_data \<Rightarrow> Inr response_data)))"

text \<open>The argument map \<open>search\<close> builds (lines 120 to 132).\<close>

definition search_arguments :: "net \<Rightarrow> string \<Rightarrow> int \<Rightarrow> bool \<Rightarrow> int \<Rightarrow> exn + json" where
  "search_arguments n query max_results news_only days_back =
     (let arguments = [(''query'', JStr query), (''numResults'', JInt max_results)]
      in if news_only then
           (let arguments = arguments @ [(''category'', JStr ''news'')]
            in if days_back \<noteq> 0 then
                 (case start_date n days_back of
                    Inl e \<Rightarrow> Inl e
                  | Inr d \<Rightarrow> Inr (JDict (arguments @ [(''startPublishedDate'', JStr d)])))
               else Inr (JDict arguments))
         else Inr (JDict arguments))"

text \<open>
  \<open>json.loads\<close> of a nested text, with its handler (lines 154 to 159 and 163 to 166):
  a \<open>JSONDecodeError\<close> gives the degraded result, a decoded value goes on to
  \<open>_parse_search_results\<close>, anything else is raised. Only a \<open>str\<close> can be decoded.
\<close>

definition parse_nested_text :: "py \<Rightarrow> json \<Rightarrow> string \<Rightarrow> int \<Rightarrow> exn + SearchResult list" where
  "parse_nested_text p content_text query max_results =
     (case content_text of
        JStr s \<Rightarrow>
          (case json_loads p s of
             Inr search_data \<Rightarrow> parse_search_results p search_data max_results
           | Inl e \<Rightarrow> if is_JSONDecodeError e then Inr (parse_text_results s query) else Inl e)
      | _ \<Rightarrow> Inl (Exn TypeError (''the JSON object must be str, bytes or bytearray, not ''
                     @ type_name content_text)))"

text \<open>Lines 144 to 172: where the payload is looked for in the response.\<close>

definition extract_results :: "py \<Rightarrow> json \<Rightarrow> string \<Rightarrow> int \<Rightarrow> exn + SearchResult list" where
  "extract_results p response query max_results =
     (case py_get_default response ''result'' (JDict []) of
        Inl e \<Rightarrow> Inl e
      | Inr result_data \<Rightarrow>
          (case py_contains ''content'' result_data of
             Inl e \<Rightarrow> Inl e
           | Inr False \<Rightarrow> parse_search_results p result_data max_results
           | Inr True \<Rightarrow>
               (case py_getitem result_data ''content'' of
                  Inl e \<Rightarrow> Inl e
                | Inr content \<Rightarrow>
                    (case content of
                       JList (first # rest) \<Rightarrow>
                         (case first of
                            JDict d0 \<Rightarrow>
                              if dict_has d0 ''text''
                              then parse_nested_text p (dict_get d0 ''text'') query max_results
                              else parse_search_results p content max_results
                          | _ \<Rightarrow> parse_search_results p content max_results)
                     | JStr s \<Rightarrow> parse_nested_text p content query max_results
                     | _ \<Rightarrow> parse_search_results p content max_results))))"

text \<open>The \<open>try\<close> block of \<open>search\<close>.\<close>

definition search_try ::
  "py \<Rightarrow> net \<Rightarrow> string \<Rightarrow> int \<Rightarrow> bool \<Rightarrow> int \<Rightarrow> exn + SearchResult list" where
  "search_try p n query max_results news_only days_back =
     (case search_arguments n query max_results news_only days_back of
        Inl e \<Rightarrow> Inl e
      | Inr arguments \<Rightarrow>
          (case send_mcp_request p n ''tools/call''
                  (JDict [(''name'', JStr ''web_search_exa''), (''arguments'', arguments)]) of
             Inl e \<Rightarrow> Inl e
           | Inr response \<Rightarrow> extract_results p response query max_results))"

text \<open>
  \<open>search\<close>: the handler of \<open>except Exception as e\<close> prints
  \<open>Error during blaxel-search: \<close> with \<open>str(e)\<close> and returns the empty list; what
  that \<open>print\<close> raises leaves \<open>search\<close>.
\<close>

definition search ::
  "py \<Rightarrow> net \<Rightarrow> string \<Rightarrow> int \<Rightarrow> bool \<Rightarrow> int \<Rightarrow> exn + SearchResult list" where
  "search p n query max_results news_only days_back =
     (case search_try p n query max_results news_only days_back of
        Inl e \<Rightarrow> printing p (''Error during blaxel-search: '' @ exn_str e) (Inr [])
      | Inr results \<Rightarrow> Inr results)"

section \<open>The page fetcher and the synthesizers (\<open>script_maker.py\<close>)\<close>

subsection \<open>String methods\<close>

text \<open>
  Code points below 256 only. \<open>str.splitlines\<close> ends a line at each of these (and
  at \<open>\r\n\<close> as one); \<open>str.strip\<close> removes the characters \<open>str.isspace\<close> accepts.
\<close>

definition is_linebreak :: "char \<Rightarrow> bool" where
  "is_linebreak c \<longleftrightarrow> (of_char c :: nat) \<in> {10, 11, 12, 13, 28, 29, 30, 133}"

definition is_space :: "char \<Rightarrow> bool" where
  "is_space c \<longleftrightarrow> (of_char c :: nat) \<in> {9, 10, 11, 12, 13, 28, 29, 30, 31, 32, 133, 160}"

fun splitlines_from :: "string \<Rightarrow> string \<Rightarrow> string list" where
  "splitlines_from line [] = (if line = [] then [] else [line])"
| "splitlines_from line [c] =
     (if is_linebreak c then [line] else [line @ [c]])"
| "splitlines_from line (c # d # cs) =
     (if c = CHR 0x0D \<and> d = CHR 0x0A then line # splitlines_from [] cs
      else if is_linebreak c then line # splitlines_from [] (d # cs)
      else splitlines_from (line @ [c]) (d # cs))"

definition splitlines :: "string \<Rightarrow> string list" where
  "splitlines s = splitlines_from [] s"

definition strip :: "string \<Rightarrow> string" where
  "strip s = rev (dropWhile is_space (rev (dropWhile is_space s)))"

text \<open>\<open>line.split("  ")\<close>: the pieces between occurrences of two spaces, leftmost first.\<close>

fun split_from :: "string \<Rightarrow> string \<Rightarrow> string list" where
  "split_from piece [] = [piece]"
| "split_from piece [c] = [piece @ [c]]"
| "split_from piece (c # d # cs) =
     (if c = CHR '' '' \<and> d = CHR '' '' then piece # split_from [] cs
      else split_from (piece @ [c]) (d # cs))"

definition split_two_spaces :: "string \<Rightarrow> string list" where
  "split_two_spaces s = split_from [] s"

text \<open>Lines 33 to 35: the whitespace clean-up.\<close>

definition clean_text :: "string \<Rightarrow> string" where
  "clean_text txt =
     (let lines = map strip (splitlines txt);
          chunks = map strip (concat (map split_two_spaces lines))
      in join '' '' (filter (\<lambda>chunk. chunk \<noteq> []) chunks))"

definition replace_underscore :: "string \<Rightarrow> string" where
  "replace_underscore s = map (\<lambda>c. if c = CHR ''_'' then CHR '' '' else c) s"

text \<open>An \<open>Optional[str]\<close> inside an f-string.\<close>

definition fmt :: "string option \<Rightarrow> string" where
  "fmt v = (case v of None \<Rightarrow> ''None'' | Some s \<Rightarrow> s)"

subsection \<open>\<open>fetch_webpage\<close>\<close>

text \<open>The dict \<open>fetch_webpage\<close> returns.\<close>

record FetchedPage =
  page_url :: string
  page_title :: "string option"
  page_content :: "string option"
  page_success :: bool
  page_error :: "string option"

text \<open>
  What \<open>BeautifulSoup\<close> gives once the six kinds of element are removed: the text of
  \<open>get_text()\<close>, and \<open>soup.title\<close> with its \<open>.string\<close> (absent, or present with
  or without a single string).
\<close>

record soup =
  soup_text :: string
  soup_title :: "string option option"

text \<open>
  The outside world of the fetcher: the outcome of the GET the \<open>i\<close>-th task of a
  fan-out issues for its url (client construction, redirects and timeout included),
  the message of the \<open>HTTPStatusError\<close> that \<open>raise_for_status\<close> builds, and the
  HTML parser.
\<close>

record web =
  http_get :: "nat \<Rightarrow> string \<Rightarrow> exn + http_response"
  status_message :: "http_response \<Rightarrow> string"
  html_parser :: "string \<Rightarrow> exn + soup"

text \<open>The \<open>try\<close> block of \<open>fetch_webpage\<close>; \<open>raise_for_status\<close> accepts 2xx only.\<close>

definition fetch_webpage_try :: "web \<Rightarrow> nat \<Rightarrow> string \<Rightarrow> exn + FetchedPage" where
  "fetch_webpage_try w i link =
     (case http_get w i link of
        Inl e \<Rightarrow> Inl e
      | Inr response \<Rightarrow>
          if \<not> (200 \<le> status_code response \<and> status_code response < 300)
          then Inl (Exn HTTPStatusError (status_message w response))
          else
            (case html_parser w (body_text response) of
               Inl e \<Rightarrow> Inl e
             | Inr sp \<Rightarrow>
                 Inr \<lparr>page_url = link,
                      page_title = (case soup_title sp of None \<Rightarrow> Some ''No title'' | Some t \<Rightarrow> t),
                      page_content = Some (take 15000 (clean_text (soup_text sp))),
                      page_success = True,
                      page_error = None\<rparr>))"

text \<open>
  \<open>fetch_webpage\<close>: \<open>except Exception as e\<close> returns the failure dict with
  \<open>str(e)\<close>. The result is a sum so that "returns" is a statement about it.
\<close>

definition fetch_webpage :: "web \<Rightarrow> nat \<Rightarrow> string \<Rightarrow> exn + FetchedPage" where
  "fetch_webpage w i link =
     (case fetch_webpage_try w i link of
        Inr page \<Rightarrow> Inr page
      | Inl e \<Rightarrow>
          Inr \<lparr>page_url = link,
               page_title = None,
               page_content = None,
               page_success = False,
               page_error = Some (exn_str e)\<rparr>)"

subsection \<open>The fan-out and the completion call\<close>

text \<open>
  \<open>await asyncio.gather(*tasks)\<close>: the results in the order of the tasks, whatever
  the order they finish in, or the exception of a task that raised.
\<close>

fun gather :: "(exn + 'a) list \<Rightarrow> exn + 'a list" where
  "gather [] = Inr []"
| "gather (t # ts) =
     (case t of
        Inl e \<Rightarrow> Inl e
      | Inr v \<Rightarrow> (case gather ts of Inl e \<Rightarrow> Inl e | Inr vs \<Rightarrow> Inr (v # vs)))"

text \<open>\<open>[fetch_webpage(url) for url in urls]\<close>, the tasks numbered from \<open>i\<close>.\<close>

fun fetch_tasks :: "web \<Rightarrow> nat \<Rightarrow> string list \<Rightarrow> (exn + FetchedPage) list" where
  "fetch_tasks w i [] = []"
| "fetch_tasks w i (link # links) = fetch_webpage w i link # fetch_tasks w (Suc i) links"

record completion_request =
  model_id :: string
  max_tokens :: nat
  temperature :: "rat option"
  user_message :: string

text \<open>
  The completion service answers a request with the texts of its content blocks, or
  raises. \<open>create_message\<close> is \<open>client.messages.create(...)\<close> followed by
  \<open>message.content[0].text\<close>; the state it threads is the list of requests sent so far.
\<close>

type_synonym llm = "completion_request \<Rightarrow> exn + string list"

definition create_message ::
  "llm \<Rightarrow> completion_request \<Rightarrow> completion_request list
   \<Rightarrow> (exn + string) \<times> completion_request list" where
  "create_message service req calls =
     (case service req of
        Inl e \<Rightarrow> (Inl e, calls @ [req])
      | Inr [] \<Rightarrow> (Inl (Exn IndexError ''list index out of range''), calls @ [req])
      | Inr (block # blocks) \<Rightarrow> (Inr block, calls @ [req]))"

subsection \<open>\<open>generate_podcast_script\<close>\<close>

text \<open>
  The prompt (lines 104 to 131) and the wrapping of the answer (lines 145 to 161). The two
  progress lines the function prints (lines 75 and 102) hold ASCII text and the decimal
  digits of list lengths, which every encoding of \<open>sys.stdout\<close> writes: they change
  nothing of what the function returns or sends.
\<close>

definition podcast_prompt :: "nat \<Rightarrow> string \<Rightarrow> string \<Rightarrow> string \<Rightarrow> string \<Rightarrow> string \<Rightarrow> string list \<Rightarrow> string" where
  \<open>podcast_prompt successful_fetches context_doc podcast_style episode_length tone target_audience source_summaries =
     ''You are a professional podcast scriptwriter. Based on the following source material from '' @
     str_nat successful_fetches @
     '' webpages, write a complete podcast script.\<newline>'' @
     ''\<newline>'' @
     context_doc @
     ''\<newline>'' @
     ''\<newline>'' @
     ''PODCAST SPECIFICATIONS:\<newline>'' @
     ''- Style: '' @
     podcast_style @
     ''\<newline>'' @
     ''- Episode Length: '' @
     episode_length @
     ''\<newline>'' @
     ''- Tone: '' @
     tone @
     ''\<newline>'' @
     ''- Target Audience: '' @
     target_audience @
     ''\<newline>'' @
     ''\<newline>'' @
     ''SCRIPT REQUIREMENTS:\<newline>'' @
     ''1. FORMAT: Write in standard podcast script format with clear speaker labels\<newline>'' @
     ''2. NATURAL DIALOGUE: Make it sound like reading facts based on findings from research\<newline>'' @
     ''3. PACING: Include natural pauses [PAUSE], transitions, and segment breaks\<newline>'' @
     ''4. AUTHENTICITY: Make the narrator sound like they're reporting based on findings\<newline>'' @
     ''5. CITATIONS: Naturally mention sources when referencing specific information\<newline>'' @
     ''\<newline>'' @
     ''SOURCES TO CREDIT:\<newline>'' @
     join ''\<newline>'' source_summaries @
     ''\<newline>'' @
     ''\<newline>'' @
     ''Generate a complete, production-ready podcast script that brings this content to life in an engaging way for '' @
     target_audience @
     ''.\<newline>'' @
     ''\<newline>'' @
     ''Make sure script focuses only on delivering information. No need to add additional flair. Just information from the url and context.\<newline>'' @
     ''\<newline>'' @
     ''Make sure the script matches the '' @
     episode_length @
     '' target length. \<newline>'' @
     ''\<newline>'' @
     ''When generating the text do not add tone cues do not try to add comments, just have the text itself.\<newline>''\<close>

definition podcast_response :: "py \<Rightarrow> string \<Rightarrow> string \<Rightarrow> string \<Rightarrow> string \<Rightarrow> nat \<Rightarrow> nat \<Rightarrow> string \<Rightarrow> string list \<Rightarrow> string" where
  \<open>podcast_response p podcast_style episode_length tone target_audience successful_fetches n_urls script_content source_summaries =
     ''# PODCAST SCRIPT GENERATED\<newline>'' @
     ''\<newline>'' @
     ''**Episode Type:** '' @
     str_title p (replace_underscore podcast_style) @
     ''\<newline>'' @
     ''**Length:** '' @
     replace_underscore episode_length @
     ''\<newline>'' @
     ''**Tone:** '' @
     str_title p tone @
     ''\<newline>'' @
     ''**Target Audience:** '' @
     target_audience @
     ''\<newline>'' @
     ''**Sources Analyzed:** '' @
     str_nat successful_fetches @
     ''/'' @
     str_nat n_urls @
     ''\<newline>'' @
     ''\<newline>'' @
     ''---\<newline>'' @
     ''\<newline>'' @
     script_content @
     ''\<newline>'' @
     ''\<newline>'' @
     ''---\<newline>'' @
     ''\<newline>'' @
     ''**Sources Referenced:**\<newline>'' @
     join ''\<newline>'' source_summaries @
     ''\<newline>''\<close>

text \<open>
  The loop of lines 86 to 97, on the results still to visit: \<open>i\<close> is the number
  \<open>enumerate(results, 1)\<close> gives, the triple is \<open>context\<close>, \<open>successful_fetches\<close>
  and \<open>source_summaries\<close>.
\<close>

fun podcast_loop ::
  "nat \<Rightarrow> FetchedPage list \<Rightarrow> string \<times> nat \<times> string list \<Rightarrow> string \<times> nat \<times> string list" where
  "podcast_loop i [] acc = acc"
| "podcast_loop i (result # results) (context_doc, successful_fetches, source_summaries) =
     (if page_success result
      then podcast_loop (Suc i) results
             (context_doc
                @ ''## Source '' @ str_nat i @ '': '' @ fmt (page_title result) @ ''\<newline>''
                @ ''URL: '' @ page_url result @ ''\<newline>\<newline>''
                @ fmt (page_content result) @ ''\<newline>\<newline>''
                @ ''---\<newline>\<newline>'',
              Suc successful_fetches,
              source_summaries
                @ [''- '' @ fmt (page_title result) @ '' ('' @ page_url result @ '')''])
      else podcast_loop (Suc i) results
             (context_doc
                @ ''## Source '' @ str_nat i @ '': FAILED\<newline>''
                @ ''URL: '' @ page_url result @ ''\<newline>''
                @ ''Error: '' @ fmt (page_error result) @ ''\<newline>\<newline>'',
              successful_fetches,
              source_summaries))"

definition refusal :: string where
  "refusal = ''Error: Failed to fetch any webpages successfully. Please check the URLs.''"

definition generate_podcast_script ::
  "py \<Rightarrow> web \<Rightarrow> llm \<Rightarrow> string list \<Rightarrow> string \<Rightarrow> string \<Rightarrow> string \<Rightarrow> string
   \<Rightarrow> completion_request list \<Rightarrow> (exn + string) \<times> completion_request list" where
  "generate_podcast_script p w service urls podcast_style episode_length tone target_audience calls =
     (case gather (fetch_tasks w 0 urls) of
        Inl e \<Rightarrow> (Inl e, calls)
      | Inr results \<Rightarrow>
          (case podcast_loop 1 results (''# Source Material from Webpages:\<newline>\<newline>'', 0, []) of
             (context_doc, successful_fetches, source_summaries) \<Rightarrow>
               if successful_fetches = 0 then (Inr refusal, calls)
               else
                 (case create_message service
                         \<lparr>model_id = ''claude-sonnet-4-20250514'',
                          max_tokens = 8000,
                          temperature = Some (7 / 10),
                          user_message = podcast_prompt successful_fetches context_doc podcast_style
                                           episode_length tone target_audience source_summaries\<rparr>
                         calls of
                    (Inl e, calls') \<Rightarrow> (Inl e, calls')
                  | (Inr script_content, calls') \<Rightarrow>
                      (Inr (podcast_response p podcast_style episode_length tone target_audience
                              successful_fetches (length urls) script_content source_summaries),
                       calls'))))"

subsection \<open>The three other tools\<close>

text \<open>The prompts and wrappings of the three other tools.\<close>

definition storytelling_prompt :: "string \<Rightarrow> string \<Rightarrow> string \<Rightarrow> string" where
  \<open>storytelling_prompt context_doc narrative_style narrator_voice =
     ''You are a master storyteller and podcast scriptwriter. Based on the following source material, create a captivating narrative podcast script.\<newline>'' @
     ''\<newline>'' @
     context_doc @
     ''\<newline>'' @
     ''\<newline>'' @
     ''NARRATIVE SPECIFICATIONS:\<newline>'' @
     ''- Style: '' @
     narrative_style @
     ''\<newline>'' @
     ''- Voice: '' @
     narrator_voice @
     ''\<newline>'' @
     ''\<newline>'' @
     ''STORYTELLING REQUIREMENTS:\<newline>'' @
     ''1. Craft a compelling narrative arc (setup, rising action, climax, resolution)\<newline>'' @
     ''2. Use vivid, descriptive language that paints pictures in the listener's mind\<newline>'' @
     ''3. Build suspense and maintain engagement throughout\<newline>'' @
     ''4. Include scene-setting and atmospheric descriptions\<newline>'' @
     ''5. Use pacing effectively:\<newline>'' @
     ''   - Short sentences for tension\<newline>'' @
     ''   - Longer, flowing sentences for reflection\<newline>'' @
     ''   - Strategic [PAUSE] markers for dramatic effect\<newline>'' @
     ''6. Incorporate direct quotes from sources where powerful\<newline>'' @
     ''7. Make the listener feel like they're experiencing the story with the narrator\<newline>'' @
     ''8. Use narrative techniques:\<newline>'' @
     ''   - Foreshadowing (hint at what's coming)\<newline>'' @
     ''   - Callbacks (reference earlier points with new meaning)\<newline>'' @
     ''   - Revelations (strategic information drops)\<newline>'' @
     ''9. Include [MUSIC CUE: description] where it would enhance the story\<newline>'' @
     ''\<newline>'' @
     ''Transform this information into a story that people will want to hear from beginning to end.''\<close>

definition storytelling_response :: "py \<Rightarrow> string \<Rightarrow> string \<Rightarrow> string \<Rightarrow> string list \<Rightarrow> string" where
  \<open>storytelling_response p narrative_style narrator_voice script source_summaries =
     ''# NARRATIVE PODCAST SCRIPT\<newline>'' @
     ''\<newline>'' @
     ''**Style:** '' @
     str_title p (replace_underscore narrative_style) @
     ''\<newline>'' @
     ''**Voice:** '' @
     str_title p (replace_underscore narrator_voice) @
     ''\<newline>'' @
     ''\<newline>'' @
     ''---\<newline>'' @
     ''\<newline>'' @
     script @
     ''\<newline>'' @
     ''\<newline>'' @
     ''---\<newline>'' @
     ''\<newline>'' @
     ''**Sources:**\<newline>'' @
     join ''\<newline>'' source_summaries @
     ''\<newline>''\<close>

definition analysis_prompt :: "string \<Rightarrow> string \<Rightarrow> string" where
  \<open>analysis_prompt context_doc podcast_type =
     ''You are a podcast content strategist. Analyze the following sources to provide strategic recommendations for creating a '' @
     podcast_type @
     '' podcast.\<newline>'' @
     ''\<newline>'' @
     context_doc @
     ''\<newline>'' @
     ''\<newline>'' @
     ''ANALYSIS FRAMEWORK:\<newline>'' @
     ''Provide a comprehensive analysis with:\<newline>'' @
     ''\<newline>'' @
     ''1. **MAIN THEMES**: What are the core topics across all sources? Identify 3-5 major themes.\<newline>'' @
     ''\<newline>'' @
     ''2. **HOOK IDEAS**: Suggest 5 compelling ways to open the podcast that will grab listeners immediately.\<newline>'' @
     ''\<newline>'' @
     ''3. **KEY TALKING POINTS**: List the main points to cover in order. Create a logical flow.\<newline>'' @
     ''\<newline>'' @
     ''4. **INTERESTING ANGLES**: What are 3-4 unique perspectives or angles that aren't obvious?\<newline>'' @
     ''\<newline>'' @
     ''5. **POTENTIAL SEGMENTS**: How should the episode be structured? Suggest segment titles and durations.\<newline>'' @
     ''\<newline>'' @
     ''6. **QUESTIONS TO ADDRESS**: What would the audience want to know? List 7-10 questions.\<newline>'' @
     ''\<newline>'' @
     ''7. **STORYTELLING OPPORTUNITIES**: Identify specific anecdotes, examples, or narrative moments.\<newline>'' @
     ''\<newline>'' @
     ''8. **RECOMMENDED FORMAT**: What podcast style would work best and why?\<newline>'' @
     ''\<newline>'' @
     ''9. **ESTIMATED LENGTH**: Based on the depth of content, how long should this episode be?\<newline>'' @
     ''\<newline>'' @
     ''10. **CHALLENGES**: What concepts might be difficult to explain in audio?\<newline>'' @
     ''\<newline>'' @
     ''11. **PRODUCTION NOTES**: Suggestions for music, sound effects, or pacing?\<newline>'' @
     ''\<newline>'' @
     ''Be specific and actionable. Reference actual content from the sources.''\<close>

definition analysis_response :: "string \<Rightarrow> string list \<Rightarrow> string" where
  \<open>analysis_response analysis source_summaries =
     ''# PODCAST SOURCE ANALYSIS\<newline>'' @
     ''\<newline>'' @
     analysis @
     ''\<newline>'' @
     ''\<newline>'' @
     ''---\<newline>'' @
     ''\<newline>'' @
     ''**Sources Analyzed:**\<newline>'' @
     join ''\<newline>'' source_summaries @
     ''\<newline>'' @
     ''\<newline>'' @
     ''---\<newline>'' @
     ''\<newline>'' @
     ''Ready to generate? Use 'generate_podcast_script' with your chosen parameters based on this analysis.\<newline>''\<close>

definition comparison_prompt :: "string \<Rightarrow> string \<Rightarrow> string" where
  \<open>comparison_prompt context_doc comparison_angle =
     ''You are creating a podcast that explores '' @
     comparison_angle @
     ''. \<newline>'' @
     ''\<newline>'' @
     context_doc @
     ''\<newline>'' @
     ''\<newline>'' @
     ''TASK:\<newline>'' @
     ''Create a podcast script that:\<newline>'' @
     ''\<newline>'' @
     ''1. **INTRODUCES THE LANDSCAPE**: What's the topic and why do different views exist?\<newline>'' @
     ''\<newline>'' @
     ''2. **PRESENTS EACH PERSPECTIVE**: \<newline>'' @
     ''   - Fairly represent each source's viewpoint\<newline>'' @
     ''   - Use direct quotes where powerful\<newline>'' @
     ''   - Explain the reasoning behind each position\<newline>'' @
     ''\<newline>'' @
     ''3. **COMPARES AND CONTRASTS**:\<newline>'' @
     ''   - Where do they agree?\<newline>'' @
     ''   - Where do they disagree?\<newline>'' @
     ''   - What are the key points of tension?\<newline>'' @
     ''\<newline>'' @
     ''4. **ANALYZES**:\<newline>'' @
     ''   - Which arguments are stronger and why?\<newline>'' @
     ''   - What evidence supports each side?\<newline>'' @
     ''\<newline>'' @
     ''5. **SYNTHESIZES**:\<newline>'' @
     ''   - What can we learn from examining all perspectives?\<newline>'' @
     ''   - Is there a middle ground?\<newline>'' @
     ''   - What questions remain unanswered?\<newline>'' @
     ''\<newline>'' @
     ''FORMAT:\<newline>'' @
     ''- Conversational but analytical tone\<newline>'' @
     ''- Include [PAUSE] for reflection moments\<newline>'' @
     ''- Structure with clear segments\<newline>'' @
     ''- 20-30 minute script length\<newline>'' @
     ''\<newline>'' @
     ''Make it balanced, thoughtful, and engaging.''\<close>

definition comparison_response :: "string \<Rightarrow> nat \<Rightarrow> string \<Rightarrow> string list \<Rightarrow> string" where
  \<open>comparison_response comparison_angle n_urls script source_summaries =
     ''# COMPARATIVE ANALYSIS PODCAST\<newline>'' @
     ''\<newline>'' @
     ''**Comparison Focus:** '' @
     comparison_angle @
     ''\<newline>'' @
     ''**Sources:** '' @
     str_nat n_urls @
     ''\<newline>'' @
     ''\<newline>'' @
     ''---\<newline>'' @
     ''\<newline>'' @
     script @
     ''\<newline>'' @
     ''\<newline>'' @
     ''---\<newline>'' @
     ''\<newline>'' @
     ''**Sources Compared:**\<newline>'' @
     join ''\<newline>'' source_summaries @
     ''\<newline>''\<close>

fun storytelling_loop ::
  "nat \<Rightarrow> FetchedPage list \<Rightarrow> string \<times> string list \<Rightarrow> string \<times> string list" where
  "storytelling_loop i [] acc = acc"
| "storytelling_loop i (result # results) (context_doc, source_summaries) =
     (if page_success result
      then storytelling_loop (Suc i) results
             (context_doc
                @ ''## Source '' @ str_nat i @ '': '' @ fmt (page_title result) @ ''\<newline>''
                @ fmt (page_content result) @ ''\<newline>\<newline>---\<newline>\<newline>'',
              source_summaries
                @ [''- '' @ fmt (page_title result) @ '' ('' @ page_url result @ '')''])
      else storytelling_loop (Suc i) results (context_doc, source_summaries))"

definition generate_storytelling_podcast ::
  "py \<Rightarrow> web \<Rightarrow> llm \<Rightarrow> string list \<Rightarrow> string \<Rightarrow> string
   \<Rightarrow> completion_request list \<Rightarrow> (exn + string) \<times> completion_request list" where
  "generate_storytelling_podcast p w service urls narrative_style narrator_voice calls =
     (case gather (fetch_tasks w 0 urls) of
        Inl e \<Rightarrow> (Inl e, calls)
      | Inr results \<Rightarrow>
          (case storytelling_loop 1 results (''# Story Source Material:\<newline>\<newline>'', []) of
             (context_doc, source_summaries) \<Rightarrow>
               (case create_message service
                       \<lparr>model_id = ''claude-sonnet-4-20250514'',
                        max_tokens = 8000,
                        temperature = Some (8 / 10),
                        user_message = storytelling_prompt context_doc narrative_style narrator_voice\<rparr>
                       calls of
                  (Inl e, calls') \<Rightarrow> (Inl e, calls')
                | (Inr script, calls') \<Rightarrow>
                    (Inr (storytelling_response p narrative_style narrator_voice script
                            source_summaries),
                     calls'))))"

text \<open>
  In \<open>analyze_sources_for_podcast\<close> the preview is \<open>result['content'][:3000]\<close>: the
  content of a successful fetch is a \<open>str\<close>; slicing \<open>None\<close> would raise.
\<close>

fun analysis_loop ::
  "nat \<Rightarrow> FetchedPage list \<Rightarrow> string \<times> string list \<Rightarrow> exn + string \<times> string list" where
  "analysis_loop i [] acc = Inr acc"
| "analysis_loop i (result # results) (context_doc, source_summaries) =
     (if page_success result
      then (case page_content result of
              None \<Rightarrow> Inl (Exn TypeError (quoted ''NoneType'' @ '' object is not subscriptable''))
            | Some content_v \<Rightarrow>
                analysis_loop (Suc i) results
                  (context_doc
                     @ ''## Source '' @ str_nat i @ '': '' @ fmt (page_title result) @ ''\<newline>''
                     @ ''URL: '' @ page_url result @ ''\<newline>\<newline>''
                     @ take 3000 content_v @ ''...\<newline>\<newline>---\<newline>\<newline>'',
                   source_summaries
                     @ [''- '' @ fmt (page_title result) @ '' ('' @ page_url result @ '')'']))
      else analysis_loop (Suc i) results (context_doc, source_summaries))"

definition analyze_sources_for_podcast ::
  "web \<Rightarrow> llm \<Rightarrow> string list \<Rightarrow> string
   \<Rightarrow> completion_request list \<Rightarrow> (exn + string) \<times> completion_request list" where
  "analyze_sources_for_podcast w service urls podcast_type calls =
     (case gather (fetch_tasks w 0 urls) of
        Inl e \<Rightarrow> (Inl e, calls)
      | Inr results \<Rightarrow>
          (case analysis_loop 1 results (''# Content to Analyze:\<newline>\<newline>'', []) of
             Inl e \<Rightarrow> (Inl e, calls)
           | Inr (context_doc, source_summaries) \<Rightarrow>
               (case create_message service
                       \<lparr>model_id = ''claude-sonnet-4-20250514'',
                        max_tokens = 4096,
                        temperature = None,
                        user_message = analysis_prompt context_doc podcast_type\<rparr>
                       calls of
                  (Inl e, calls') \<Rightarrow> (Inl e, calls')
                | (Inr analysis, calls') \<Rightarrow>
                    (Inr (analysis_response analysis source_summaries), calls'))))"

fun comparison_loop ::
  "nat \<Rightarrow> FetchedPage list \<Rightarrow> string \<times> string list \<Rightarrow> string \<times> string list" where
  "comparison_loop i [] acc = acc"
| "comparison_loop i (result # results) (context_doc, source_summaries) =
     (if page_success result
      then comparison_loop (Suc i) results
             (context_doc
                @ ''## Source '' @ str_nat i @ '': '' @ fmt (page_title result) @ ''\<newline>''
                @ ''URL: '' @ page_url result @ ''\<newline>\<newline>''
                @ fmt (page_content result) @ ''\<newline>\<newline>---\<newline>\<newline>'',
              source_summaries
                @ [''- '' @ fmt (page_title result) @ '' ('' @ page_url result @ '')''])
      else comparison_loop (Suc i) results (context_doc, source_summaries))"

definition compare_sources_podcast ::
  "web \<Rightarrow> llm \<Rightarrow> string list \<Rightarrow> string
   \<Rightarrow> completion_request list \<Rightarrow> (exn + string) \<times> completion_request list" where
  "compare_sources_podcast w service urls comparison_angle calls =
     (case gather (fetch_tasks w 0 urls) of
        Inl e \<Rightarrow> (Inl e, calls)
      | Inr results \<Rightarrow>
          (case comparison_loop 1 results (''# Sources to Compare:\<newline>\<newline>'', []) of
             (context_doc, source_summaries) \<Rightarrow>
               (case create_message service
                       \<lparr>model_id = ''claude-sonnet-4-20250514'',
                        max_tokens = 8000,
                        temperature = Some (7 / 10),
                        user_message = comparison_prompt context_doc comparison_angle\<rparr>
                       calls of
                  (Inl e, calls') \<Rightarrow> (Inl e, calls')
                | (Inr script, calls') \<Rightarrow>
                    (Inr (comparison_response comparison_angle (length urls) script
                            source_summaries),
                     calls'))))"

section \<open>Notions the properties are stated with\<close>

text \<open>
  What one pass of the loop of \<open>_parse_search_results\<close> does with an item: it
  raises, or it adds a result or nothing. \<open>yields\<close> is the result added, if any.
\<close>

definition hit_result :: "py \<Rightarrow> json \<Rightarrow> exn + SearchResult option" where
  "hit_result p item = (case item of JDict d \<Rightarrow> create_search_result p d | _ \<Rightarrow> Inr None)"

definition yields :: "py \<Rightarrow> json \<Rightarrow> SearchResult option" where
  "yields p item = (case hit_result p item of Inr (Some r) \<Rightarrow> Some r | _ \<Rightarrow> None)"

text \<open>Whether the pass for an item returns, so that the loop goes on.\<close>

definition returns :: "py \<Rightarrow> json \<Rightarrow> bool" where
  "returns p item = (case hit_result p item of Inr r \<Rightarrow> True | Inl e \<Rightarrow> False)"

text \<open>The first truthy value of a list of candidates, else the fallback.\<close>

fun first_truthy :: "json list \<Rightarrow> json \<Rightarrow> json" where
  "first_truthy [] fallback = fallback"
| "first_truthy (v # vs) fallback = (if truthy v then v else first_truthy vs fallback)"

definition title_field :: "(string \<times> json) list \<Rightarrow> json" where
  "title_field item =
     first_truthy [dict_get item ''title'', dict_get item ''name'', dict_get item ''heading'']
       (JStr ''Search Result'')"

definition url_field :: "(string \<times> json) list \<Rightarrow> json" where
  "url_field item =
     first_truthy [dict_get item ''url'', dict_get item ''link'', dict_get item ''href''] (JStr [])"

definition description_field :: "(string \<times> json) list \<Rightarrow> json" where
  "description_field item =
     first_truthy [dict_get item ''description'', dict_get item ''snippet'',
                   dict_get item ''summary'', dict_get item ''content''] (JStr [])"



text \<open>A stream that encodes every character, as a UTF-8 one does for the \<open>char\<close>s here.\<close>

definition encodes_all :: "py \<Rightarrow> bool" where
  "encodes_all p \<longleftrightarrow> (\<forall>c. stdout_encodes p c)"

text \<open>The dict \<open>fetch_webpage\<close> returns after an exception whose text is \<open>msg\<close>.\<close>

definition failed_page :: "string \<Rightarrow> string \<Rightarrow> FetchedPage" where
  "failed_page link msg =
     \<lparr>page_url = link, page_title = None, page_content = None,
      page_success = False, page_error = Some msg\<rparr>"

text \<open>
  The dict the \<open>i\<close>-th task returns for its url, and the list a fan-out over
  \<open>urls\<close> gives, in the order of \<open>urls\<close>.
\<close>

definition fetched :: "web \<Rightarrow> nat \<Rightarrow> string \<Rightarrow> FetchedPage" where
  "fetched w i link =
     (case fetch_webpage_try w i link of
        Inr page \<Rightarrow> page
      | Inl e \<Rightarrow> failed_page link (exn_str e))"

definition fetch_results :: "web \<Rightarrow> string list \<Rightarrow> FetchedPage list" where
  "fetch_results w urls = map (\<lambda>i. fetched w i (urls ! i)) [0..<length urls]"

text \<open>
  The block of the context document for the \<open>i\<close>-th source: title, URL and content of
  a successful fetch, URL and error of a failed one; and the line of the source list.
\<close>

definition source_block :: "nat \<Rightarrow> FetchedPage \<Rightarrow> string" where
  "source_block i result =
     (if page_success result
      then ''## Source '' @ str_nat i @ '': '' @ fmt (page_title result) @ ''\<newline>''
             @ ''URL: '' @ page_url result @ ''\<newline>\<newline>''
             @ fmt (page_content result) @ ''\<newline>\<newline>''
             @ ''---\<newline>\<newline>''
      else ''## Source '' @ str_nat i @ '': FAILED\<newline>''
             @ ''URL: '' @ page_url result @ ''\<newline>''
             @ ''Error: '' @ fmt (page_error result) @ ''\<newline>\<newline>'')"

definition source_summary :: "FetchedPage \<Rightarrow> string" where
  "source_summary result = ''- '' @ fmt (page_title result) @ '' ('' @ page_url result @ '')''"

definition context_document :: "FetchedPage list \<Rightarrow> string" where
  "context_document results =
     ''# Source Material from Webpages:\<newline>\<newline>''
       @ concat (map (\<lambda>i. source_block (Suc i) (results ! i)) [0..<length results])"

definition podcast_request ::
  "FetchedPage list \<Rightarrow> string \<Rightarrow> string \<Rightarrow> string \<Rightarrow> string \<Rightarrow> completion_request" where
  "podcast_request results podcast_style episode_length tone target_audience =
     \<lparr>model_id = ''claude-sonnet-4-20250514'',
      max_tokens = 8000,
      temperature = Some (7 / 10),
      user_message =
        podcast_prompt (length (filter page_success results)) (context_document results)
          podcast_style episode_length tone target_audience
          (map source_summary (filter page_success results))\<rparr>"

section \<open>Sample inputs\<close>

text \<open>
  A runtime for the examples. It agrees with CPython on what the examples give it:
  the three texts below for the decoder, the word \<open>high\<close> for \<open>float\<close>, ASCII
  text without quotes for \<open>repr\<close>, ASCII text for \<open>str.title\<close>. Its
  \<open>stdout\<close> encodes every character and its digit limit is the default 4300.
  \<open>ascii_py\<close> is the same runtime with a \<open>stdout\<close> that encodes ASCII only.
\<close>

definition hits_text :: string where
  \<open>hits_text =
     ''[{"title": "A", "url": "http://a.example", "snippet": "about a"}, '' @
     ''{"title": "B", "url": "http://b.example"}]''\<close>

definition hits_json :: json where
  "hits_json =
     JList [JDict [(''title'', JStr ''A''), (''url'', JStr ''http://a.example''),
                   (''snippet'', JStr ''about a'')],
            JDict [(''title'', JStr ''B''), (''url'', JStr ''http://b.example'')]]"

text \<open>A payload with three raw hits under \<open>results\<close>, the first one without a link.\<close>

definition capped_text :: string where
  \<open>capped_text =
     ''{"results": [{"title": "No link"}, '' @
     ''{"title": "A", "url": "http://a.example"}, '' @
     ''{"title": "B", "url": "http://b.example"}]}''\<close>

definition capped_hits :: "json list" where
  "capped_hits =
     [JDict [(''title'', JStr ''No link'')],
      JDict [(''title'', JStr ''A''), (''url'', JStr ''http://a.example'')],
      JDict [(''title'', JStr ''B''), (''url'', JStr ''http://b.example'')]]"

definition plain_text :: string where
  "plain_text = ''No results found for this query.''"

definition is_upper :: "char \<Rightarrow> bool" where
  "is_upper c \<longleftrightarrow> 65 \<le> (of_char c :: nat) \<and> (of_char c :: nat) \<le> 90"

definition is_lower :: "char \<Rightarrow> bool" where
  "is_lower c \<longleftrightarrow> 97 \<le> (of_char c :: nat) \<and> (of_char c :: nat) \<le> 122"

fun title_from :: "bool \<Rightarrow> string \<Rightarrow> string" where
  "title_from cased [] = []"
| "title_from cased (c # cs) =
     (if is_lower c then (if cased then c else char_of (of_char c - (32::nat))) # title_from True cs
      else if is_upper c then (if cased then char_of (of_char c + (32::nat)) else c) # title_from True cs
      else c # title_from False cs)"

definition sample_py :: py where
  "sample_py =
     \<lparr>json_loads = (\<lambda>s. if s = hits_text then Inr hits_json
                          else if s = capped_text then Inr (JDict [(''results'', JList capped_hits)])
                          else Inl (Exn JSONDecodeError ''Expecting value: line 1 column 1 (char 0)'')),
      float_of_str = (\<lambda>s. Inl (Exn ValueError (''could not convert string to float: '' @ quoted s))),
      repr_float = (\<lambda>f. (CHR ''0'', ''.0'')),
      repr_str = quoted,
      str_title = title_from False,
      stdout_encodes = (\<lambda>c. True),
      int_max_str_digits = 4300\<rparr>"

definition ascii_py :: py where
  "ascii_py = sample_py\<lparr>stdout_encodes := (\<lambda>c. False)\<rparr>"

text \<open>A server that answers every request with status 200 and one text block.\<close>

definition json_escape :: "string \<Rightarrow> string" where
  "json_escape s = concat (map (\<lambda>c. if c = CHR 0x22 \<or> c = CHR 0x5C then [CHR 0x5C, c] else [c]) s)"

definition envelope_text :: "string \<Rightarrow> string" where
  \<open>envelope_text t =
     ''{"jsonrpc": "2.0", "id": "1", "result": {"content": [{"type": "text", "text": "''
       @ json_escape t @ ''"}]}}''\<close>

definition envelope :: "string \<Rightarrow> json" where
  "envelope t =
     JDict [(''jsonrpc'', JStr ''2.0''), (''id'', JStr ''1''),
            (''result'', JDict [(''content'', JList [JDict [(''type'', JStr ''text''),
                                                            (''text'', JStr t)]])])]"

definition text_server :: "string \<Rightarrow> net" where
  "text_server t =
     \<lparr>endpoint_url = ''https://mcp-blaxel-search-vzjx7r.bl.run/mcp'',
      new_uuid = ''6f1c2a9e-5b7d-4c3e-9a41-0d2f8e6b7c15'',
      start_date = (\<lambda>days. Inr ''2024-01-01T00:00:00.000Z''),
      session_post = (\<lambda>req. Inr \<lparr>status_code = 200, body_text = envelope_text t\<rparr>),
      response_json = (\<lambda>r. if body_text r = envelope_text t then Inr (envelope t)
                           else Inl (Exn RequestsJSONDecodeError ''Expecting value''))\<rparr>"

text \<open>A server that cannot be reached.\<close>

definition no_server :: net where
  "no_server =
     \<lparr>endpoint_url = ''https://mcp-blaxel-search-vzjx7r.bl.run/mcp'',
      new_uuid = ''6f1c2a9e-5b7d-4c3e-9a41-0d2f8e6b7c15'',
      start_date = (\<lambda>days. Inr ''2024-01-01T00:00:00.000Z''),
      session_post = (\<lambda>req. Inl (Exn RequestException ''Connection refused'')),
      response_json = (\<lambda>r. Inl (Exn RequestsJSONDecodeError ''Expecting value''))\<rparr>"

text \<open>
  A server that answers every request with status 200 and a JSON-RPC error whose
  message ends in the character U+00E9.
\<close>

definition error_message :: string where
  "error_message = ''Recherche refus'' @ [CHR 0xE9] @ ''e''"

definition error_server :: net where
  \<open>error_server =
     \<lparr>endpoint_url = ''https://mcp-blaxel-search-vzjx7r.bl.run/mcp'',
      new_uuid = ''6f1c2a9e-5b7d-4c3e-9a41-0d2f8e6b7c15'',
      start_date = (\<lambda>days. Inr ''2024-01-01T00:00:00.000Z''),
      session_post = (\<lambda>req. Inr \<lparr>status_code = 200,
         body_text = ''{"jsonrpc": "2.0", "id": "1", "error": {"message": "''
                       @ error_message @ ''"}}''\<rparr>),
      response_json = (\<lambda>r. Inr (JDict [(''jsonrpc'', JStr ''2.0''), (''id'', JStr ''1''),
                                          (''error'', JDict [(''message'', JStr error_message)])]))\<rparr>\<close>

text \<open>
  A web where \<open>http://a.example\<close> serves a page and every other GET times out with an
  exception that carries no message; and one where every GET does.
\<close>

definition sample_soup :: soup where
  "sample_soup = \<lparr>soup_text = ''Alpha  news'', soup_title = Some (Some ''Alpha'')\<rparr>"

definition sample_web :: web where
  "sample_web =
     \<lparr>http_get = (\<lambda>i link. if link = ''http://a.example''
                           then Inr \<lparr>status_code = 200, body_text = ''<title>Alpha</title>Alpha  news''\<rparr>
                           else Inl (Exn OtherError [])),
      status_message = (\<lambda>r. ''Client error''),
      html_parser = (\<lambda>html. Inr sample_soup)\<rparr>"

definition dead_web :: web where
  "dead_web =
     \<lparr>http_get = (\<lambda>i link. Inl (Exn OtherError [])),
      status_message = (\<lambda>r. ''Client error''),
      html_parser = (\<lambda>html. Inr sample_soup)\<rparr>"

text \<open>A web where every page is missing.\<close>

definition missing_web :: web where
  "missing_web =
     \<lparr>http_get = (\<lambda>i link. Inr \<lparr>status_code = 404, body_text = ''Not Found''\<rparr>),
      status_message = (\<lambda>r. ''Client error: 404 Not Found''),
      html_parser = (\<lambda>html. Inr sample_soup)\<rparr>"

definition sample_llm :: llm where
  "sample_llm = (\<lambda>req. Inr [''SCRIPT_BODY''])"

section \<open>Properties of the search client\<close>

subsection \<open>Texts and printed lines\<close>

lemma str_nat_nonempty: "str_nat n \<noteq> []"
  by (subst str_nat.simps) simp

lemma str_int_nonempty: "str_int p i = Inr s \<Longrightarrow> s \<noteq> []"
  by (auto simp: str_int_def Let_def str_nat_nonempty split: if_splits)

lemma py_repr_list_nonempty: "py_repr p (JList xs) = Inr s \<Longrightarrow> s \<noteq> []"
  by (auto split: sum.splits)

lemma py_repr_dict_nonempty: "py_repr p (JDict kvs) = Inr s \<Longrightarrow> s \<noteq> []"
  by (auto split: sum.splits)

lemma py_str_nonempty:
  assumes "truthy v" and "py_str p v = Inr s"
  shows "s \<noteq> []"
proof (cases v)
  case (JInt n)
  with assms show ?thesis by (simp add: py_str_def str_int_nonempty)
next
  case (JList xs)
  with assms show ?thesis using py_repr_list_nonempty [of p xs s] by (simp add: py_str_def)
next
  case (JDict kvs)
  with assms show ?thesis using py_repr_dict_nonempty [of p kvs s] by (simp add: py_str_def)
qed (use assms in \<open>auto simp: py_str_def\<close>)

lemma py_print_all: "encodes_all p \<Longrightarrow> py_print p s = None"
  by (simp add: py_print_def encodes_all_def encodable_def list_all_iff)

lemma printing_all: "encodes_all p \<Longrightarrow> printing p s rest = rest"
  by (simp add: printing_def py_print_all)

subsection \<open>One hit\<close>

lemma title_field_eq:
  "py_or (py_or (py_or (dict_get item ''title'') (dict_get item ''name''))
       (dict_get item ''heading'')) (JStr ''Search Result'') = title_field item"
  by (simp add: py_or_def title_field_def)

lemma url_field_eq:
  "py_or (py_or (py_or (dict_get item ''url'') (dict_get item ''link''))
       (dict_get item ''href'')) (JStr []) = url_field item"
  by (simp add: py_or_def url_field_def)

lemma description_field_eq:
  "py_or (py_or (py_or (py_or (dict_get item ''description'')
       (dict_get item ''snippet'')) (dict_get item ''summary''))
       (dict_get item ''content'')) (JStr []) = description_field item"
  by (simp add: py_or_def description_field_def)

lemma truthy_title_field: "truthy (title_field item)"
  by (simp add: title_field_def)

lemma create_search_result_try_eq:
  "create_search_result_try p item =
     (case relevance_of p item of
        Inl e \<Rightarrow> Inl e
      | Inr score_v \<Rightarrow>
          if truthy (url_field item)
          then (case py_str p (title_field item) of
                  Inl e \<Rightarrow> Inl e
                | Inr title_s \<Rightarrow>
                    (case py_str p (url_field item) of
                       Inl e \<Rightarrow> Inl e
                     | Inr url_s \<Rightarrow>
                         (case py_str p (description_field item) of
                            Inl e \<Rightarrow> Inl e
                          | Inr description_s \<Rightarrow>
                              Inr (Some \<lparr>title = take 200 title_s,
                                         url = url_s,
                                         description = take 300 description_s,
                                         relevance_score = score_v\<rparr>))))
          else Inr None)"
  unfolding create_search_result_try_def Let_def title_field_eq url_field_eq description_field_eq
  by (simp add: truthy_title_field split: sum.splits)

text \<open>What a call that returns a result has done.\<close>

lemma create_search_result_Some:
  "create_search_result p item = Inr (Some r) \<longleftrightarrow>
     truthy (url_field item)
     \<and> (\<exists>sc t u d. relevance_of p item = Inr sc
           \<and> py_str p (title_field item) = Inr t
           \<and> py_str p (url_field item) = Inr u
           \<and> py_str p (description_field item) = Inr d
           \<and> r = \<lparr>title = take 200 t, url = u, description = take 300 d,
                   relevance_score = sc\<rparr>)"
proof -
  have handler: "(case py_repr p (JDict item) of
             Inl e' \<Rightarrow> Inl e'
           | Inr shown \<Rightarrow>
               printing p (''Error creating search result from '' @ shown @ '': '' @ exn_str e)
                 (Inr None)) \<noteq> Inr (Some r)" for e
    by (auto simp: printing_def split: sum.splits option.splits)
  have "create_search_result p item = Inr (Some r)
        \<longleftrightarrow> create_search_result_try p item = Inr (Some r)"
    using handler by (cases "create_search_result_try p item") (simp_all add: create_search_result_def)
  also have "\<dots> \<longleftrightarrow> truthy (url_field item)
     \<and> (\<exists>sc t u d. relevance_of p item = Inr sc
           \<and> py_str p (title_field item) = Inr t
           \<and> py_str p (url_field item) = Inr u
           \<and> py_str p (description_field item) = Inr d
           \<and> r = \<lparr>title = take 200 t, url = u, description = take 300 d,
                   relevance_score = sc\<rparr>)"
    by (auto simp: create_search_result_try_eq split: sum.splits)
  finally show ?thesis .
qed

lemma create_search_result_fields:
  assumes "create_search_result p item = Inr (Some r)"
  shows "title r \<noteq> [] \<and> url r \<noteq> [] \<and> length (title r) \<le> 200 \<and> length (description r) \<le> 300"
proof -
  from assms obtain sc t u d where u: "truthy (url_field item)"
    and t': "py_str p (title_field item) = Inr t" and u': "py_str p (url_field item) = Inr u"
    and r: "r = \<lparr>title = take 200 t, url = u, description = take 300 d, relevance_score = sc\<rparr>"
    unfolding create_search_result_Some by blast
  show ?thesis
    using py_str_nonempty [OF u u'] py_str_nonempty [OF truthy_title_field t']
    by (simp add: r)
qed

subsection \<open>The loop over the hits\<close>



lemma set_map_filter: "r \<in> set (List.map_filter f xs) \<Longrightarrow> \<exists>x \<in> set xs. f x = Some r"
  by (auto simp: List.map_filter_def)

lemma yields_fields:
  assumes "yields p item = Some r"
  shows "title r \<noteq> [] \<and> url r \<noteq> [] \<and> length (title r) \<le> 200 \<and> length (description r) \<le> 300"
proof -
  from assms obtain d where "item = JDict d" "create_search_result p d = Inr (Some r)"
    by (auto simp: yields_def hit_result_def split: json.splits sum.splits option.splits)
  then show ?thesis
    using create_search_result_fields by blast
qed

lemma append_results_eq:
  "fst (append_results p items results)
     = results @ List.map_filter (yields p) (takeWhile (returns p) items)"
proof (induction items arbitrary: results)
  case Nil
  show ?case by (simp add: List.map_filter_simps)
next
  case (Cons item items)
  show ?case
  proof (cases item)
    case (JDict d)
    show ?thesis
    proof (cases "create_search_result p d")
      case (Inl e)
      with JDict show ?thesis
        by (simp add: returns_def hit_result_def List.map_filter_simps)
    next
      case (Inr r)
      with JDict show ?thesis
        by (cases r)
           (simp_all add: Cons returns_def hit_result_def yields_def List.map_filter_simps)
    qed
  qed (simp_all add: Cons returns_def hit_result_def yields_def List.map_filter_simps)
qed

lemma append_results_quiet:
  assumes "\<forall>item \<in> set items. returns p item"
  shows "append_results p items results = (results @ List.map_filter (yields p) items, None)"
  using assms
proof (induction items arbitrary: results)
  case Nil
  show ?case by (simp add: List.map_filter_simps)
next
  case (Cons item items)
  then have r: "returns p item" and rest: "\<forall>item \<in> set items. returns p item"
    by simp_all
  show ?case
  proof (cases item)
    case (JDict d)
    with r obtain res where "create_search_result p d = Inr res"
      by (auto simp: returns_def hit_result_def split: sum.splits)
    with JDict show ?thesis
      by (cases res) (simp_all add: Cons.IH [OF rest] hit_result_def yields_def List.map_filter_simps)
  qed (simp_all add: Cons.IH [OF rest] hit_result_def yields_def List.map_filter_simps)
qed

lemma append_results_yields:
  "r \<in> set (fst (append_results p items [])) \<Longrightarrow> \<exists>item. yields p item = Some r"
  by (auto simp: append_results_eq dest: set_map_filter)

lemma parse_search_results_try_yields:
  assumes "r \<in> set (fst (parse_search_results_try p data m))"
  shows "\<exists>item. yields p item = Some r"
proof (cases data)
  case (JList xs)
  with assms show ?thesis
    by (auto simp: parse_search_results_try_def dest: append_results_yields)
next
  case (JDict d)
  show ?thesis
  proof (cases "dict_has d ''results''")
    case True
    with assms JDict show ?thesis
      by (auto simp: parse_search_results_try_def split: sum.splits dest: append_results_yields)
  next
    case nores: False
    show ?thesis
    proof (cases "dict_has d ''links''")
      case True
      with assms JDict nores show ?thesis
        by (auto simp: parse_search_results_try_def split: sum.splits dest: append_results_yields)
    next
      case False
      with assms JDict nores have "create_search_result p d = Inr (Some r)"
        by (auto simp: parse_search_results_try_def split: if_splits sum.splits option.splits)
      then have "yields p (JDict d) = Some r"
        by (simp add: yields_def hit_result_def)
      then show ?thesis ..
    qed
  qed
qed (use assms in \<open>simp_all add: parse_search_results_try_def\<close>)

lemma parse_search_results_Inr:
  assumes "parse_search_results p data m = Inr results"
  shows "results = fst (parse_search_results_try p data m)"
  using assms
  by (cases "parse_search_results_try p data m")
     (auto simp: parse_search_results_def printing_def split: option.splits)


lemma parse_search_results_fields:
  assumes "parse_search_results p data m = Inr results" and "r \<in> set results"
  shows "title r \<noteq> [] \<and> url r \<noteq> [] \<and> length (title r) \<le> 200 \<and> length (description r) \<le> 300"
  using parse_search_results_try_yields [of r p data m] parse_search_results_Inr [OF assms(1)]
    assms(2) yields_fields
  by blast


subsection \<open>What \<open>search\<close> returns\<close>

lemma parse_text_results_fields:
  assumes "r \<in> set (parse_text_results txt query)"
  shows "parse_text_results txt query = [r] \<and> url r = [] \<and> title r = ''Search results for: '' @ query
         \<and> length (description r) \<le> 303 \<and> relevance_score r = Finite (1 / 2)"
  using assms by (simp add: parse_text_results_def)

lemma parse_nested_text_cases:
  assumes "parse_nested_text p ct query m = Inr results"
  shows "(\<exists>data. parse_search_results p data m = Inr results)
         \<or> (\<exists>s. results = parse_text_results s query)"
proof (cases ct)
  case (JStr s)
  show ?thesis
  proof (cases "json_loads p s")
    case (Inl e)
    with assms JStr show ?thesis
      by (auto simp: parse_nested_text_def split: if_splits)
  next
    case (Inr data)
    with assms JStr show ?thesis
      by (auto simp: parse_nested_text_def)
  qed
qed (use assms in \<open>simp_all add: parse_nested_text_def\<close>)

lemma extract_results_cases:
  assumes "extract_results p response query m = Inr results"
  shows "(\<exists>data. parse_search_results p data m = Inr results)
         \<or> (\<exists>s. results = parse_text_results s query)"
proof -
  obtain rd where rd: "py_get_default response ''result'' (JDict []) = Inr rd"
    using assms by (cases "py_get_default response ''result'' (JDict [])")
      (simp_all add: extract_results_def)
  obtain b where b: "py_contains ''content'' rd = Inr b"
    using assms rd by (cases "py_contains ''content'' rd") (simp_all add: extract_results_def)
  show ?thesis
  proof (cases b)
    case False
    with assms rd b have "parse_search_results p rd m = Inr results"
      by (simp add: extract_results_def)
    then show ?thesis by blast
  next
    case True
    obtain content where c: "py_getitem rd ''content'' = Inr content"
      using assms rd b True by (cases "py_getitem rd ''content''") (simp_all add: extract_results_def)
    have "parse_search_results p content m = Inr results
          \<or> (\<exists>ct. parse_nested_text p ct query m = Inr results)"
      using assms rd b True c
      by (simp add: extract_results_def split: json.splits list.splits if_splits) blast+
    then show ?thesis
      using parse_nested_text_cases by blast
  qed
qed

lemma search_cases:
  assumes "search p n query m news days = Inr results"
  shows "results = [] \<or> (\<exists>data. parse_search_results p data m = Inr results)
         \<or> (\<exists>s. results = parse_text_results s query)"
proof (cases "search_try p n query m news days")
  case (Inl e)
  with assms show ?thesis
    by (auto simp: search_def printing_def split: option.splits)
next
  case (Inr rs)
  with assms have eq: "rs = results" by (simp add: search_def)
  from Inr obtain response where "extract_results p response query m = Inr rs"
    by (auto simp: search_try_def split: sum.splits)
  from extract_results_cases [OF this] eq show ?thesis by blast
qed

text \<open>
  C4 (as amended). The claim says that every result \<open>search\<close> returns, the degraded one
  included, has a non-empty title and url, a title of at most 200 characters and a
  description of at most 300. That holds for every result built by
  \<open>_create_search_result\<close>. The degraded result \<open>_parse_text_results\<close> builds from
  freeform text is returned alone, with an empty url, the title
  \<open>Search results for: \<close> followed by the whole query, a description of at most 303
  characters (300 and the ellipsis) and the score 0.5.
\<close>

theorem search_results_invariant:
  assumes "search p n query m news days = Inr results" and "r \<in> set results"
  shows "(title r \<noteq> [] \<and> url r \<noteq> [] \<and> length (title r) \<le> 200 \<and> length (description r) \<le> 300)
       \<or> (results = [r] \<and> url r = [] \<and> title r = ''Search results for: '' @ query
           \<and> length (description r) \<le> 303 \<and> relevance_score r = Finite (1 / 2))"
proof -
  consider "results = []" | data where "parse_search_results p data m = Inr results"
    | s where "results = parse_text_results s query"
    using search_cases [OF assms(1)] by blast
  then show ?thesis
  proof cases
    case 1
    with assms(2) show ?thesis by simp
  next
    case 2
    from parse_search_results_fields [OF 2 assms(2)] show ?thesis by blast
  next
    case 3
    with assms(2) parse_text_results_fields [of r s query] show ?thesis by simp
  qed
qed

subsection \<open>The sample runtime\<close>

lemma sample_encodes: "encodes_all sample_py"
  by (simp add: encodes_all_def sample_py_def)

lemma sample_print: "py_print sample_py s = None"
  by (rule py_print_all [OF sample_encodes])

lemma str_nat_200: "str_nat 200 = ''200''"
  by code_simp

lemma str_nat_10: "str_nat 10 = ''10''"
  by code_simp


lemma str_int_200: "str_int p 200 = Inr ''200''"
  by (simp add: str_int_def str_nat_200 digit_limit_def)

text \<open>
  Unfolding a call of \<open>search\<close> on a concrete server.
\<close>

lemmas search_eval =
  search_def search_try_def search_arguments_def send_mcp_request_def check_response_def
  announce_request_def printing_def sample_print str_int_200
  extract_results_def parse_nested_text_def parse_text_results_def
  parse_search_results_def parse_search_results_try_def
  py_contains_def py_getitem_def py_get_default_def dict_has_def dict_get_def dict_get_default_def
  py_or_def py_str_def slice_to_def is_JSONDecodeError_def is_RequestException_def reraise_def
  create_search_result_def create_search_result_try_def relevance_of_def float_of_int_def

lemma sample_digits: "int_max_str_digits sample_py = 4300" "digit_limit sample_py = 4300"
  by (simp_all add: sample_py_def digit_limit_def)

lemma str_int_10: "str_int sample_py 10 = Inr ''10''"
  by (simp add: str_int_def str_nat_10 sample_digits)


lemma sample_loads:
  "json_loads sample_py hits_text = Inr hits_json"
  "json_loads sample_py plain_text = Inl (Exn JSONDecodeError ''Expecting value: line 1 column 1 (char 0)'')"
  "json_loads sample_py capped_text = Inr (JDict [(''results'', JList capped_hits)])"
  "repr_str sample_py = quoted"
  by (simp_all add: sample_py_def plain_text_def hits_text_def capped_text_def)

lemma search_hits_eval:
  "search sample_py (text_server hits_text) ''podcasts'' 10 False 7 =
     Inr [\<lparr>title = ''A'', url = ''http://a.example'', description = ''about a'',
           relevance_score = Finite 0\<rparr>,
          \<lparr>title = ''B'', url = ''http://b.example'', description = [],
           relevance_score = Finite 0\<rparr>]"
  by (simp add: search_eval str_int_10 text_server_def envelope_def hits_json_def
        sample_loads)

text \<open>
  The invariant at the first result of a response that lists two hits.
\<close>

theorem search_results_invariant_witness:
  "search sample_py (text_server hits_text) ''podcasts'' 10 False 7 =
     Inr [\<lparr>title = ''A'', url = ''http://a.example'', description = ''about a'',
           relevance_score = Finite 0\<rparr>,
          \<lparr>title = ''B'', url = ''http://b.example'', description = [],
           relevance_score = Finite 0\<rparr>]
   \<and> title \<lparr>title = ''A'', url = ''http://a.example'', description = ''about a'',
             relevance_score = Finite 0\<rparr> \<noteq> []
   \<and> url \<lparr>title = ''A'', url = ''http://a.example'', description = ''about a'',
           relevance_score = Finite 0\<rparr> \<noteq> []"
proof -
  let ?a = "\<lparr>title = ''A'', url = ''http://a.example'', description = ''about a'',
             relevance_score = Finite 0\<rparr>"
  let ?b = "\<lparr>title = ''B'', url = ''http://b.example'', description = [],
             relevance_score = Finite 0\<rparr>"
  have e: "search sample_py (text_server hits_text) ''podcasts'' 10 False 7 = Inr [?a, ?b]"
    by (rule search_hits_eval)
  have i: "?a \<in> set [?a, ?b]" by simp
  show ?thesis
    using search_results_invariant [OF e i] e by simp
qed

text \<open>
  C4 as stated fails: a response whose nested text is not JSON gives a result with an
  empty url.
\<close>

theorem degraded_result_counterexample:
  "search sample_py (text_server plain_text) ''podcasts'' 10 False 7 =
     Inr [\<lparr>title = ''Search results for: podcasts'', url = [],
           description = ''No results found for this query.'',
           relevance_score = Finite (1 / 2)\<rparr>]"
  by (simp add: search_eval str_int_10 text_server_def envelope_def sample_loads)
     (simp add: plain_text_def)

text \<open>
  C8 (as amended). The claim gives \<open>relevance_score\<close> precedence whenever the field is
  present. In the code the precedence depends on the value: for a hit that yields a
  result, the score is \<open>float\<close> of the \<open>relevance_score\<close> field when the field is
  present and that number is not zero; when the field is absent or its number is zero,
  the score is \<open>float\<close> of the \<open>score\<close> field when that is present, else 0.0.
  A \<open>relevance_score\<close> that is present always converts, or the hit yields nothing.
\<close>

theorem relevance_score_fallback:
  assumes "create_search_result p item = Inr (Some r)"
  shows "(\<forall>v. map_of item ''relevance_score'' = Some v \<longrightarrow> (\<exists>a. py_float p v = Inr a))
       \<and> (\<forall>v a. map_of item ''relevance_score'' = Some v \<and> py_float p v = Inr a \<and> truthy_float a
              \<longrightarrow> relevance_score r = a)
       \<and> (map_of item ''relevance_score'' = None
            \<or> (\<exists>v a. map_of item ''relevance_score'' = Some v \<and> py_float p v = Inr a
                    \<and> \<not> truthy_float a)
           \<longrightarrow> (case map_of item ''score'' of
                  None \<Rightarrow> relevance_score r = Finite 0
                | Some v' \<Rightarrow> py_float p v' = Inr (relevance_score r)))"
proof -
  obtain sc where sc: "relevance_of p item = Inr sc" and r: "relevance_score r = sc"
    using assms unfolding create_search_result_Some by auto
  show ?thesis
  proof (cases "map_of item ''relevance_score''")
    case None
    with sc r show ?thesis
      by (auto simp: relevance_of_def dict_get_default_def split: option.splits)
  next
    case (Some v)
    with sc obtain a where a: "py_float p v = Inr a"
      by (cases "py_float p v") (simp_all add: relevance_of_def dict_get_default_def)
    with Some sc r show ?thesis
      by (auto simp: relevance_of_def dict_get_default_def split: option.splits if_splits)
  qed
qed

lemmas hit_eval =
  create_search_result_def create_search_result_try_eq relevance_of_def dict_get_default_def
  float_of_int_def url_field_def title_field_def description_field_def dict_get_def py_str_def
  printing_def sample_print

text \<open>
  C8 as stated fails: with \<open>relevance_score\<close> present and 0 and \<open>score\<close> 1 the result
  carries 1.0, not 0.0.
\<close>

theorem zero_relevance_counterexample:
  "create_search_result sample_py
     [(''title'', JStr ''A''), (''url'', JStr ''http://a.example''),
      (''relevance_score'', JInt 0), (''score'', JInt 1)] =
   Inr (Some \<lparr>title = ''A'', url = ''http://a.example'', description = [],
              relevance_score = Finite 1\<rparr>)"
  by (simp add: hit_eval)

text \<open>
  The fallback at a hit whose \<open>relevance_score\<close> is 0 and whose \<open>score\<close> is 1.
\<close>

theorem relevance_score_fallback_witness:
  "create_search_result sample_py
     [(''title'', JStr ''A''), (''url'', JStr ''http://a.example''),
      (''relevance_score'', JInt 0), (''score'', JInt 1)] =
   Inr (Some \<lparr>title = ''A'', url = ''http://a.example'', description = [],
              relevance_score = Finite 1\<rparr>)
   \<and> py_float sample_py (JInt 0) = Inr (Finite 0)
   \<and> py_float sample_py (JInt 1) = Inr (Finite 1)"
proof -
  let ?item = "[(''title'', JStr ''A''), (''url'', JStr ''http://a.example''),
      (''relevance_score'', JInt 0), (''score'', JInt 1)]"
  let ?r = "\<lparr>title = ''A'', url = ''http://a.example'', description = [],
         relevance_score = Finite 1\<rparr>"
  have c: "create_search_result sample_py ?item = Inr (Some ?r)"
    by (simp add: hit_eval)
  show ?thesis
    using relevance_score_fallback [OF c] c by (simp add: float_of_int_def)
qed

subsection \<open>Scores that do not convert\<close>






subsection \<open>The handler of \<open>search\<close>\<close>

lemma search_returns_when_printed:
  assumes "encodes_all p"
  shows "\<exists>results. search p n query m news days = Inr results
           \<and> (\<forall>e. search_try p n query m news days = Inl e \<longrightarrow> results = [])"
  by (cases "search_try p n query m news days")
     (simp_all add: search_def printing_all [OF assms])

lemma ascii_printing:
  "list_all (\<lambda>c. (of_char c :: nat) < 128) s \<Longrightarrow> printing p s rest = rest"
  by (simp add: printing_def py_print_def encodable_def list_all_iff)

lemma str_nat_54: "str_nat 54 = ''54''"
  by code_simp

lemma ascii_py_fields:
  "stdout_encodes ascii_py = (\<lambda>c. False)" "repr_str ascii_py = quoted"
  "digit_limit ascii_py = 4300"
  by (simp_all add: ascii_py_def sample_py_def digit_limit_def)

lemma str_int_10_ascii: "str_int ascii_py 10 = Inr ''10''"
  by (simp add: str_int_def str_nat_10 ascii_py_fields)

lemma error_announce:
  "announce_request ascii_py error_server ''tools/call''
     (JDict [(''name'', JStr ''web_search_exa''),
             (''arguments'', JDict [(''query'', JStr ''podcasts''), (''numResults'', JInt 10)])])
   = Inr ()"
  by (simp add: announce_request_def py_str_def ascii_py_fields str_int_10_ascii quoted_def
        error_server_def ascii_printing)

lemma error_check:
  "check_response ascii_py error_server
     \<lparr>status_code = 200,
      body_text = b\<rparr>
   = Inl (Exn PlainException (''MCP Error: '' @ error_message))"
  by (simp add: check_response_def str_int_200 ascii_printing error_server_def py_str_def
        ascii_py_fields quoted_def py_contains_def py_getitem_def py_get_default_def
        dict_has_def dict_get_def dict_get_default_def)

lemma error_try:
  "search_try ascii_py error_server ''podcasts'' 10 False 7 =
     Inl (Exn PlainException (''MCP Error: '' @ error_message))"
proof -
  have post: \<open>session_post error_server req = Inr \<lparr>status_code = 200,
         body_text = ''{"jsonrpc": "2.0", "id": "1", "error": {"message": "''
                       @ error_message @ ''"}}''\<rparr>\<close> for req
    by (simp add: error_server_def)
  show ?thesis
    by (simp add: search_try_def search_arguments_def send_mcp_request_def error_announce
          post error_check reraise_def is_RequestException_def is_JSONDecodeError_def)
qed

lemma error_line:
  "\<not> list_all (encodable ascii_py)
       (''Error during blaxel-search: '' @ ''MCP Error: '' @ error_message)"
  "length (takeWhile (encodable ascii_py)
       (''Error during blaxel-search: '' @ ''MCP Error: '' @ error_message)) = 54"
  by (simp_all add: encodable_def ascii_py_fields error_message_def)

text \<open>
  C6. The claim says that \<open>search\<close> never raises: whatever is raised inside its
  \<open>try\<close> block is caught by \<open>except Exception\<close> and gives the empty list. The
  handler prints the exception before it returns (line 175), and that \<open>print\<close> is
  outside every \<open>try\<close>. On a standard output that encodes ASCII only, a server that
  answers with status 200 and a JSON-RPC error whose message holds the character
  U+00E9 makes line 92 raise \<open>Exception\<close> with that message; the handler's
  \<open>print\<close> raises \<open>UnicodeEncodeError\<close> at position 54 of its line, and this
  exception leaves \<open>search\<close>.
\<close>

theorem search_raises_from_handler:
  "search_try ascii_py error_server ''podcasts'' 10 False 7 =
     Inl (Exn PlainException (''MCP Error: '' @ error_message))
   \<and> search ascii_py error_server ''podcasts'' 10 False 7 =
     Inl (Exn UnicodeEncodeError ''codec can't encode character in position 54'')"
proof -
  have "py_print ascii_py (''Error during blaxel-search: '' @ ''MCP Error: '' @ error_message)
        = Some (Exn UnicodeEncodeError ''codec can't encode character in position 54'')"
    by (simp only: py_print_def error_line if_False str_nat_54) simp
  then show ?thesis
    by (simp add: search_def error_try printing_def)
qed

subsection \<open>A response that is read without an exception\<close>























section \<open>Properties of the fetcher and the synthesizers\<close>

subsection \<open>The fan-out and the loop\<close>

lemma fetch_webpage_eq: "fetch_webpage w i link = Inr (fetched w i link)"
  by (simp add: fetch_webpage_def fetched_def failed_page_def split: sum.splits)

lemma fetch_webpage_try_page:
  assumes "fetch_webpage_try w i link = Inr page"
  shows "page_success page \<and> page_url page = link"
  using assms by (auto simp: fetch_webpage_try_def split: sum.splits if_splits)

lemma fetched_url: "page_url (fetched w i link) = link"
  by (cases "fetch_webpage_try w i link")
     (simp_all add: fetched_def failed_page_def fetch_webpage_try_page)

lemma fetched_success:
  "page_success (fetched w i link) \<longleftrightarrow> (\<exists>page. fetch_webpage_try w i link = Inr page)"
  by (cases "fetch_webpage_try w i link")
     (simp_all add: fetched_def failed_page_def fetch_webpage_try_page)

lemma gather_fetch_tasks:
  "gather (fetch_tasks w k urls) = Inr (map (\<lambda>i. fetched w (k + i) (urls ! i)) [0..<length urls])"
proof (induction urls arbitrary: k)
  case Nil
  show ?case by simp
next
  case (Cons link links)
  have "map (\<lambda>i. fetched w (k + i) ((link # links) ! i)) [0..<length (link # links)]
        = fetched w k link # map (\<lambda>i. fetched w (Suc k + i) (links ! i)) [0..<length links]"
    by (simp add: upt_conv_Cons map_Suc_upt [symmetric] del: upt_Suc)
  then show ?case
    by (simp add: Cons fetch_webpage_eq)
qed

lemma fan_out: "gather (fetch_tasks w 0 urls) = Inr (fetch_results w urls)"
  using gather_fetch_tasks [of w 0 urls] by (simp add: fetch_results_def)

lemma podcast_loop_eq:
  "podcast_loop i results (c, s, summaries) =
     (c @ concat (map (\<lambda>j. source_block (i + j) (results ! j)) [0..<length results]),
      s + length (filter page_success results),
      summaries @ map source_summary (filter page_success results))"
proof (induction results arbitrary: i c s summaries)
  case Nil
  show ?case by simp
next
  case (Cons r rs)
  have split: "map (\<lambda>j. source_block (i + j) ((r # rs) ! j)) [0..<length (r # rs)]
        = source_block i r # map (\<lambda>j. source_block (Suc i + j) (rs ! j)) [0..<length rs]"
    by (simp add: upt_conv_Cons map_Suc_upt [symmetric] del: upt_Suc)
  show ?case
    unfolding split
    by (simp add: Cons source_block_def source_summary_def)
qed

lemma podcast_loop_start:
  "podcast_loop 1 results (''# Source Material from Webpages:\<newline>\<newline>'', 0, []) =
     (context_document results, length (filter page_success results),
      map source_summary (filter page_success results))"
  by (simp add: podcast_loop_eq context_document_def)

subsection \<open>The claims\<close>

lemma generate_podcast_script_eq:
  "generate_podcast_script p w service urls podcast_style episode_length tone target_audience calls =
     (let results = fetch_results w urls in
      if filter page_success results = [] then (Inr refusal, calls)
      else
        (case create_message service
                (podcast_request results podcast_style episode_length tone target_audience) calls of
           (Inl e, calls') \<Rightarrow> (Inl e, calls')
         | (Inr script_content, calls') \<Rightarrow>
             (Inr (podcast_response p podcast_style episode_length tone target_audience
                     (length (filter page_success results)) (length urls) script_content
                     (map source_summary (filter page_success results))),
              calls')))"
  unfolding generate_podcast_script_def fan_out podcast_loop_start
  by (simp add: podcast_request_def Let_def)

lemma fetch_results_nth:
  "i < length urls \<Longrightarrow> fetch_results w urls ! i = fetched w i (urls ! i)"
  by (simp add: fetch_results_def)

text \<open>
  C1. When none of the dicts the fetches return has \<open>success\<close> set (an empty list
  of urls included), \<open>generate_podcast_script\<close> returns the refusal string and the
  list of completion requests sent is what it was: no completion call is made.
\<close>

theorem no_successful_fetch_refusal:
  assumes "\<forall>i < length urls. \<forall>page. fetch_webpage w i (urls ! i) = Inr page \<longrightarrow> \<not> page_success page"
  shows "generate_podcast_script p w service urls podcast_style episode_length tone
           target_audience calls
         = (Inr ''Error: Failed to fetch any webpages successfully. Please check the URLs.'', calls)"
proof -
  have "\<not> page_success r" if "r \<in> set (fetch_results w urls)" for r
  proof -
    from that obtain i where "i < length urls" "r = fetched w i (urls ! i)"
      by (auto simp: fetch_results_def)
    with assms fetch_webpage_eq [of w i "urls ! i"] show ?thesis by simp
  qed
  then have "filter page_success (fetch_results w urls) = []"
    by (simp add: filter_empty_conv)
  then show ?thesis
    by (simp add: generate_podcast_script_eq refusal_def)
qed

text \<open>
  C3. Let the fan-out over \<open>urls\<close> give at least one successful fetch, and let the
  completion service answer the request with at least one text block. Then
  \<open>generate_podcast_script\<close> returns after exactly one completion call. The results
  of the fan-out are in the order of \<open>urls\<close>, the \<open>i\<close>-th being the dict of the
  \<open>i\<close>-th url and carrying that url. The text returned is the heading, then the
  first text block of the answer, then the source list: one line per successful fetch,
  in the order of \<open>urls\<close>. The prompt of the request sent holds, after its first
  sentence, the header of the context document followed by one block per url in that
  order, numbered from 1, a success block (title, URL, content) or a failure block
  (URL, error), and further down the same source list.
\<close>

theorem podcast_script_order:
  assumes some: "filter page_success (fetch_results w urls) \<noteq> []"
      and answer: "service (podcast_request (fetch_results w urls) podcast_style episode_length
                      tone target_audience) = Inr (script_content # blocks)"
  shows \<open>gather (fetch_tasks w 0 urls) = Inr (fetch_results w urls)
       \<and> length (fetch_results w urls) = length urls
       \<and> (\<forall>i < length urls.
             fetch_webpage w i (urls ! i) = Inr (fetch_results w urls ! i)
             \<and> page_url (fetch_results w urls ! i) = urls ! i
             \<and> source_block (Suc i) (fetch_results w urls ! i) =
                 (if page_success (fetch_results w urls ! i)
                  then ''## Source '' @ str_nat (Suc i) @ '': ''
                         @ fmt (page_title (fetch_results w urls ! i)) @ ''\<newline>''
                         @ ''URL: '' @ urls ! i @ ''\<newline>\<newline>''
                         @ fmt (page_content (fetch_results w urls ! i)) @ ''\<newline>\<newline>''
                         @ ''---\<newline>\<newline>''
                  else ''## Source '' @ str_nat (Suc i) @ '': FAILED\<newline>''
                         @ ''URL: '' @ urls ! i @ ''\<newline>''
                         @ ''Error: '' @ fmt (page_error (fetch_results w urls ! i))
                         @ ''\<newline>\<newline>''))
       \<and> (\<forall>r \<in> set (fetch_results w urls).
             source_summary r = ''- '' @ fmt (page_title r) @ '' ('' @ page_url r @ '')'')
       \<and> generate_podcast_script p w service urls podcast_style episode_length tone
            target_audience calls
          = (Inr (
                  ''# PODCAST SCRIPT GENERATED\<newline>'' @
                  ''\<newline>'' @
                  ''**Episode Type:** '' @
                  str_title p (replace_underscore podcast_style) @
                  ''\<newline>'' @
                  ''**Length:** '' @
                  replace_underscore episode_length @
                  ''\<newline>'' @
                  ''**Tone:** '' @
                  str_title p tone @
                  ''\<newline>'' @
                  ''**Target Audience:** '' @
                  target_audience @
                  ''\<newline>'' @
                  ''**Sources Analyzed:** '' @
                  str_nat (length (filter page_success (fetch_results w urls))) @
                  ''/'' @
                  str_nat (length urls) @
                  ''\<newline>'' @
                  ''\<newline>'' @
                  ''---\<newline>'' @
                  ''\<newline>'' @
                  script_content @
                  ''\<newline>'' @
                  ''\<newline>'' @
                  ''---\<newline>'' @
                  ''\<newline>'' @
                  ''**Sources Referenced:**\<newline>'' @
                  join ''\<newline>'' (map source_summary (filter page_success (fetch_results w urls))) @
                  ''\<newline>''),
             calls @ [podcast_request (fetch_results w urls) podcast_style episode_length
                        tone target_audience])
       \<and> podcast_request (fetch_results w urls) podcast_style episode_length tone target_audience
          = \<lparr>model_id = ''claude-sonnet-4-20250514'',
             max_tokens = 8000,
             temperature = Some (7 / 10),
             user_message =
            ''You are a professional podcast scriptwriter. Based on the following source material from '' @
            str_nat (length (filter page_success (fetch_results w urls))) @
            '' webpages, write a complete podcast script.\<newline>'' @
            ''\<newline>'' @
            (''# Source Material from Webpages:\<newline>\<newline>''
                 @ concat (map (\<lambda>i. source_block (Suc i) (fetch_results w urls ! i))
                             [0..<length urls])) @
            ''\<newline>'' @
            ''\<newline>'' @
            ''PODCAST SPECIFICATIONS:\<newline>'' @
            ''- Style: '' @
            podcast_style @
            ''\<newline>'' @
            ''- Episode Length: '' @
            episode_length @
            ''\<newline>'' @
            ''- Tone: '' @
            tone @
            ''\<newline>'' @
            ''- Target Audience: '' @
            target_audience @
            ''\<newline>'' @
            ''\<newline>'' @
            ''SCRIPT REQUIREMENTS:\<newline>'' @
            ''1. FORMAT: Write in standard podcast script format with clear speaker labels\<newline>'' @
            ''2. NATURAL DIALOGUE: Make it sound like reading facts based on findings from research\<newline>'' @
            ''3. PACING: Include natural pauses [PAUSE], transitions, and segment breaks\<newline>'' @
            ''4. AUTHENTICITY: Make the narrator sound like they're reporting based on findings\<newline>'' @
            ''5. CITATIONS: Naturally mention sources when referencing specific information\<newline>'' @
            ''\<newline>'' @
            ''SOURCES TO CREDIT:\<newline>'' @
            join ''\<newline>'' (map source_summary (filter page_success (fetch_results w urls))) @
            ''\<newline>'' @
            ''\<newline>'' @
            ''Generate a complete, production-ready podcast script that brings this content to life in an engaging way for '' @
            target_audience @
            ''.\<newline>'' @
            ''\<newline>'' @
            ''Make sure script focuses only on delivering information. No need to add additional flair. Just information from the url and context.\<newline>'' @
            ''\<newline>'' @
            ''Make sure the script matches the '' @
            episode_length @
            '' target length. \<newline>'' @
            ''\<newline>'' @
            ''When generating the text do not add tone cues do not try to add comments, just have the text itself.\<newline>''\<rparr>\<close>
proof -
  have len: "length (fetch_results w urls) = length urls"
    by (simp add: fetch_results_def)
  have each: "fetch_webpage w i (urls ! i) = Inr (fetch_results w urls ! i)
              \<and> page_url (fetch_results w urls ! i) = urls ! i" if "i < length urls" for i
    using that by (simp add: fetch_results_nth fetch_webpage_eq fetched_url)
  have block: "source_block (Suc i) (fetch_results w urls ! i) =
                 (if page_success (fetch_results w urls ! i)
                  then ''## Source '' @ str_nat (Suc i) @ '': ''
                         @ fmt (page_title (fetch_results w urls ! i)) @ ''\<newline>''
                         @ ''URL: '' @ urls ! i @ ''\<newline>\<newline>''
                         @ fmt (page_content (fetch_results w urls ! i)) @ ''\<newline>\<newline>''
                         @ ''---\<newline>\<newline>''
                  else ''## Source '' @ str_nat (Suc i) @ '': FAILED\<newline>''
                         @ ''URL: '' @ urls ! i @ ''\<newline>''
                         @ ''Error: '' @ fmt (page_error (fetch_results w urls ! i))
                         @ ''\<newline>\<newline>'')" if "i < length urls" for i
    using each [OF that] by (simp add: source_block_def)
  have line: "\<forall>r \<in> set (fetch_results w urls).
             source_summary r = ''- '' @ fmt (page_title r) @ '' ('' @ page_url r @ '')''"
    by (simp add: source_summary_def)
  have run: "generate_podcast_script p w service urls podcast_style episode_length tone
            target_audience calls
          = (Inr (podcast_response p podcast_style episode_length tone target_audience
                    (length (filter page_success (fetch_results w urls))) (length urls)
                    script_content
                    (map source_summary (filter page_success (fetch_results w urls)))),
             calls @ [podcast_request (fetch_results w urls) podcast_style episode_length
                        tone target_audience])"
    using some answer by (simp add: generate_podcast_script_eq create_message_def Let_def)
  have req: "podcast_request (fetch_results w urls) podcast_style episode_length
                          tone target_audience
          = \<lparr>model_id = ''claude-sonnet-4-20250514'',
             max_tokens = 8000,
             temperature = Some (7 / 10),
             user_message =
               podcast_prompt (length (filter page_success (fetch_results w urls)))
                 (''# Source Material from Webpages:\<newline>\<newline>''
                    @ concat (map (\<lambda>i. source_block (Suc i) (fetch_results w urls ! i))
                                [0..<length urls]))
                 podcast_style episode_length tone target_audience
                 (map source_summary (filter page_success (fetch_results w urls)))\<rparr>"
    by (simp add: podcast_request_def context_document_def len)
  from each block have blocks: "\<forall>i < length urls.
             fetch_webpage w i (urls ! i) = Inr (fetch_results w urls ! i)
             \<and> page_url (fetch_results w urls ! i) = urls ! i
             \<and> source_block (Suc i) (fetch_results w urls ! i) =
                 (if page_success (fetch_results w urls ! i)
                  then ''## Source '' @ str_nat (Suc i) @ '': ''
                         @ fmt (page_title (fetch_results w urls ! i)) @ ''\<newline>''
                         @ ''URL: '' @ urls ! i @ ''\<newline>\<newline>''
                         @ fmt (page_content (fetch_results w urls ! i)) @ ''\<newline>\<newline>''
                         @ ''---\<newline>\<newline>''
                  else ''## Source '' @ str_nat (Suc i) @ '': FAILED\<newline>''
                         @ ''URL: '' @ urls ! i @ ''\<newline>''
                         @ ''Error: '' @ fmt (page_error (fetch_results w urls ! i))
                         @ ''\<newline>\<newline>'')"
    by blast
  show ?thesis
    unfolding run req podcast_response_def podcast_prompt_def
    using fan_out [of w urls] len blocks line by (intro conjI) (assumption | rule refl)+
qed

text \<open>
  C7 (as amended). The claim promises a non-empty error string on every failure. For
  every url \<open>fetch_webpage\<close> returns a dict carrying that url; whenever its
  \<open>try\<close> block raises (the GET raises, the status is not 2xx, the parser raises) the
  dict has \<open>success\<close> false, title and content \<open>None\<close>, and as error the text
  \<open>str(e)\<close> of the exception caught, which is empty when the exception carries no
  message.
\<close>

theorem fetch_webpage_never_raises:
  "\<exists>page. fetch_webpage w i link = Inr page \<and> page_url page = link
     \<and> (page_success page \<longleftrightarrow> (\<exists>pg. fetch_webpage_try w i link = Inr pg))
     \<and> (\<forall>e. fetch_webpage_try w i link = Inl e \<longrightarrow>
           page = \<lparr>page_url = link, page_title = None, page_content = None,
                   page_success = False, page_error = Some (exn_str e)\<rparr>)
     \<and> (\<forall>e. http_get w i link = Inl e \<longrightarrow> fetch_webpage_try w i link = Inl e)
     \<and> (\<forall>r. http_get w i link = Inr r \<and> \<not> (200 \<le> status_code r \<and> status_code r < 300) \<longrightarrow>
           fetch_webpage_try w i link = Inl (Exn HTTPStatusError (status_message w r)))
     \<and> (\<forall>r e. http_get w i link = Inr r \<and> 200 \<le> status_code r \<and> status_code r < 300
              \<and> html_parser w (body_text r) = Inl e \<longrightarrow>
           fetch_webpage_try w i link = Inl e)"
proof -
  have a: "\<forall>e. fetch_webpage_try w i link = Inl e \<longrightarrow>
           fetched w i link = \<lparr>page_url = link, page_title = None, page_content = None,
                   page_success = False, page_error = Some (exn_str e)\<rparr>"
    by (simp add: fetched_def failed_page_def)
  have b: "\<forall>e. http_get w i link = Inl e \<longrightarrow> fetch_webpage_try w i link = Inl e"
    by (simp add: fetch_webpage_try_def)
  have c: "\<forall>r. http_get w i link = Inr r \<and> \<not> (200 \<le> status_code r \<and> status_code r < 300) \<longrightarrow>
           fetch_webpage_try w i link = Inl (Exn HTTPStatusError (status_message w r))"
    by (auto simp: fetch_webpage_try_def)
  have d: "\<forall>r e. http_get w i link = Inr r \<and> 200 \<le> status_code r \<and> status_code r < 300
              \<and> html_parser w (body_text r) = Inl e \<longrightarrow>
           fetch_webpage_try w i link = Inl e"
    by (auto simp: fetch_webpage_try_def)
  from fetch_webpage_eq [of w i link] fetched_url [of w i link] fetched_success [of w i link] a b c d
  show ?thesis by blast
qed

lemma dead_fetch: "fetched dead_web i link = failed_page link []"
  by (simp add: fetched_def fetch_webpage_try_def dead_web_def)

lemma sample_fetch_b: "fetched sample_web i ''http://b.example'' = failed_page ''http://b.example'' []"
  by (simp add: fetched_def fetch_webpage_try_def sample_web_def)

lemma clean_sample: "clean_text ''Alpha  news'' = ''Alpha news''"
  by (simp add: clean_text_def splitlines_def split_two_spaces_def strip_def is_linebreak_def
        is_space_def Let_def)

lemma sample_fetch_a:
  "fetched sample_web i ''http://a.example'' =
     \<lparr>page_url = ''http://a.example'', page_title = Some ''Alpha'',
      page_content = Some ''Alpha news'', page_success = True, page_error = None\<rparr>"
  by (simp add: fetched_def fetch_webpage_try_def sample_web_def sample_soup_def clean_sample)

lemma sample_results:
  "fetch_results sample_web [''http://b.example'', ''http://a.example''] =
     [failed_page ''http://b.example'' [],
      \<lparr>page_url = ''http://a.example'', page_title = Some ''Alpha'',
       page_content = Some ''Alpha news'', page_success = True, page_error = None\<rparr>]"
  by (simp add: fetch_results_def upt_conv_Cons sample_fetch_a sample_fetch_b del: upt_Suc)

text \<open>A page that is missing: the status 404 gives the failure dict with the message.\<close>

theorem fetch_webpage_never_raises_witness:
  "fetch_webpage missing_web 0 ''http://a.example/gone'' =
     Inr \<lparr>page_url = ''http://a.example/gone'', page_title = None, page_content = None,
          page_success = False, page_error = Some ''Client error: 404 Not Found''\<rparr>"
proof -
  have t: "fetch_webpage_try missing_web 0 ''http://a.example/gone'' =
             Inl (Exn HTTPStatusError ''Client error: 404 Not Found'')"
    by (simp add: fetch_webpage_try_def missing_web_def)
  show ?thesis
    using fetch_webpage_never_raises [of missing_web 0 "''http://a.example/gone''"] t
    by auto
qed

text \<open>
  C7 as stated fails: a GET that raises an exception without a message (a timeout of
  the asynchronous client, for one) gives the failure dict with an empty error.
\<close>

theorem empty_error_counterexample:
  "http_get dead_web 0 ''http://unreachable.example'' = Inl (Exn OtherError [])
   \<and> fetch_webpage dead_web 0 ''http://unreachable.example'' =
       Inr \<lparr>page_url = ''http://unreachable.example'', page_title = None, page_content = None,
            page_success = False, page_error = Some []\<rparr>"
  by (simp add: fetch_webpage_def fetch_webpage_try_def dead_web_def)

text \<open>Two urls on a web where every GET fails.\<close>

theorem no_successful_fetch_refusal_witness:
  "fetch_webpage dead_web 0 ''http://a.example'' = Inr (failed_page ''http://a.example'' [])
   \<and> fetch_webpage dead_web 1 ''http://b.example'' = Inr (failed_page ''http://b.example'' [])
   \<and> generate_podcast_script sample_py dead_web sample_llm [''http://a.example'', ''http://b.example'']
        ''solo_narrative'' ''medium_15_25_min'' ''casual'' ''general audience'' []
      = (Inr ''Error: Failed to fetch any webpages successfully. Please check the URLs.'', [])"
proof -
  let ?urls = "[''http://a.example'', ''http://b.example'']"
  have f: "fetch_webpage dead_web i link = Inr (failed_page link [])" for i link
    by (simp add: fetch_webpage_eq dead_fetch)
  have h: "\<forall>i < length ?urls. \<forall>page. fetch_webpage dead_web i (?urls ! i) = Inr page
             \<longrightarrow> \<not> page_success page"
    by (simp add: f failed_page_def)
  show ?thesis
    using no_successful_fetch_refusal [OF h, of sample_py sample_llm "''solo_narrative''"
        "''medium_15_25_min''" "''casual''" "''general audience''" "[]"] f
    by simp
qed

lemma str_nat_1: "str_nat (Suc 0) = ''1''"
  by code_simp

lemma str_nat_2: "str_nat (Suc (Suc 0)) = ''2''"
  by code_simp

lemma sample_titles:
  "str_title sample_py (replace_underscore ''solo_narrative'') = ''Solo Narrative''"
  "replace_underscore ''medium_15_25_min'' = ''medium 15 25 min''"
  "str_title sample_py ''casual'' = ''Casual''"
  by code_simp+

text \<open>Two urls, the first failing and the second served: the failed one is Source 1.\<close>

theorem podcast_script_order_witness:
  \<open>filter page_success (fetch_results sample_web [''http://b.example'', ''http://a.example'']) \<noteq> []
   \<and> sample_llm (podcast_request
         (fetch_results sample_web [''http://b.example'', ''http://a.example''])
         ''solo_narrative'' ''medium_15_25_min'' ''casual'' ''general audience'')
       = Inr [''SCRIPT_BODY'']
   \<and> fetch_results sample_web [''http://b.example'', ''http://a.example'']
       = [failed_page ''http://b.example'' [],
          \<lparr>page_url = ''http://a.example'', page_title = Some ''Alpha'',
            page_content = Some ''Alpha news'', page_success = True, page_error = None\<rparr>]
   \<and> generate_podcast_script sample_py sample_web sample_llm
        [''http://b.example'', ''http://a.example'']
        ''solo_narrative'' ''medium_15_25_min'' ''casual'' ''general audience'' []
      = (Inr (''# PODCAST SCRIPT GENERATED\<newline>'' @
              ''\<newline>'' @
              ''**Episode Type:** Solo Narrative\<newline>'' @
              ''**Length:** medium 15 25 min\<newline>'' @
              ''**Tone:** Casual\<newline>'' @
              ''**Target Audience:** general audience\<newline>'' @
              ''**Sources Analyzed:** 1/2\<newline>'' @
              ''\<newline>'' @
              ''---\<newline>'' @
              ''\<newline>'' @
              ''SCRIPT_BODY\<newline>'' @
              ''\<newline>'' @
              ''---\<newline>'' @
              ''\<newline>'' @
              ''**Sources Referenced:**\<newline>'' @
              ''- Alpha (http://a.example)\<newline>''),
         [podcast_request (fetch_results sample_web [''http://b.example'', ''http://a.example''])
            ''solo_narrative'' ''medium_15_25_min'' ''casual'' ''general audience''])
   \<and> context_document (fetch_results sample_web [''http://b.example'', ''http://a.example''])
      = ''# Source Material from Webpages:\<newline>\<newline>'' @
        ''## Source 1: FAILED\<newline>'' @
        ''URL: http://b.example\<newline>'' @
        ''Error: \<newline>\<newline>'' @
        ''## Source 2: Alpha\<newline>'' @
        ''URL: http://a.example\<newline>\<newline>'' @
        ''Alpha news\<newline>\<newline>'' @
        ''---\<newline>\<newline>''\<close>
proof -
  let ?urls = "[''http://b.example'', ''http://a.example'']"
  have some: "filter page_success (fetch_results sample_web ?urls) \<noteq> []"
    by (simp add: sample_results failed_page_def)
  have answer: "sample_llm (podcast_request (fetch_results sample_web ?urls)
         ''solo_narrative'' ''medium_15_25_min'' ''casual'' ''general audience'')
       = Inr (''SCRIPT_BODY'' # [])"
    by (simp add: sample_llm_def)
  have k: "length (filter page_success (fetch_results sample_web ?urls)) = Suc 0"
    by (simp add: sample_results failed_page_def)
  have s: "map source_summary (filter page_success (fetch_results sample_web ?urls))
           = [''- Alpha (http://a.example)'']"
    by (simp add: sample_results failed_page_def source_summary_def fmt_def)
  have c: "context_document (fetch_results sample_web ?urls)
      = ''# Source Material from Webpages:\<newline>\<newline>'' @
        ''## Source 1: FAILED\<newline>'' @
        ''URL: http://b.example\<newline>'' @
        ''Error: \<newline>\<newline>'' @
        ''## Source 2: Alpha\<newline>'' @
        ''URL: http://a.example\<newline>\<newline>'' @
        ''Alpha news\<newline>\<newline>'' @
        ''---\<newline>\<newline>''"
    by (simp add: context_document_def sample_results failed_page_def source_block_def fmt_def
          upt_conv_Cons str_nat_1 str_nat_2 del: upt_Suc)
  note order = podcast_script_order [where w = sample_web and urls = ?urls and service = sample_llm
        and podcast_style = "''solo_narrative''" and episode_length = "''medium_15_25_min''"
        and tone = "''casual''" and target_audience = "''general audience''"
        and script_content = "''SCRIPT_BODY''" and blocks = "[]" and p = sample_py
        and calls = "[]", OF some answer]
  have run: "generate_podcast_script sample_py sample_web sample_llm ?urls
        ''solo_narrative'' ''medium_15_25_min'' ''casual'' ''general audience'' []
      = (Inr (''# PODCAST SCRIPT GENERATED\<newline>'' @
              ''\<newline>'' @
              ''**Episode Type:** Solo Narrative\<newline>'' @
              ''**Length:** medium 15 25 min\<newline>'' @
              ''**Tone:** Casual\<newline>'' @
              ''**Target Audience:** general audience\<newline>'' @
              ''**Sources Analyzed:** 1/2\<newline>'' @
              ''\<newline>'' @
              ''---\<newline>'' @
              ''\<newline>'' @
              ''SCRIPT_BODY\<newline>'' @
              ''\<newline>'' @
              ''---\<newline>'' @
              ''\<newline>'' @
              ''**Sources Referenced:**\<newline>'' @
              ''- Alpha (http://a.example)\<newline>''),
         [podcast_request (fetch_results sample_web ?urls)
            ''solo_narrative'' ''medium_15_25_min'' ''casual'' ''general audience''])"
    using order [THEN conjunct2, THEN conjunct2, THEN conjunct2, THEN conjunct2, THEN conjunct1]
    by (simp add: k s str_nat_1 str_nat_2 numeral_2_eq_2 sample_titles)
  from some answer run c show ?thesis
    by (simp add: sample_results)
qed

text \<open>
  C2. The claim gives every tool the contract of \<open>generate_podcast_script\<close>: the
  refusal without a completion call when no fetch succeeds, and the failures recorded
  in the context. The three other tools have neither: on one url whose fetch fails,
  each of them sends one completion request, built from a context document that holds
  its header only, and returns the wrapped answer.
\<close>

theorem variants_without_guard:
  "generate_storytelling_podcast sample_py dead_web sample_llm [''http://a.example'']
     ''documentary'' ''third_person_omniscient'' []
   = (Inr (storytelling_response sample_py ''documentary'' ''third_person_omniscient''
             ''SCRIPT_BODY'' []),
      [\<lparr>model_id = ''claude-sonnet-4-20250514'', max_tokens = 8000, temperature = Some (8 / 10),
        user_message = storytelling_prompt ''# Story Source Material:\<newline>\<newline>''
                         ''documentary'' ''third_person_omniscient''\<rparr>])
   \<and> analyze_sources_for_podcast dead_web sample_llm [''http://a.example''] ''general'' []
   = (Inr (analysis_response ''SCRIPT_BODY'' []),
      [\<lparr>model_id = ''claude-sonnet-4-20250514'', max_tokens = 4096, temperature = None,
        user_message = analysis_prompt ''# Content to Analyze:\<newline>\<newline>'' ''general''\<rparr>])
   \<and> compare_sources_podcast dead_web sample_llm [''http://a.example'']
       ''different perspectives on the same topic'' []
   = (Inr (comparison_response ''different perspectives on the same topic'' 1 ''SCRIPT_BODY'' []),
      [\<lparr>model_id = ''claude-sonnet-4-20250514'', max_tokens = 8000, temperature = Some (7 / 10),
        user_message = comparison_prompt ''# Sources to Compare:\<newline>\<newline>''
                         ''different perspectives on the same topic''\<rparr>])"
  by (simp add: generate_storytelling_podcast_def analyze_sources_for_podcast_def
        compare_sources_podcast_def fetch_webpage_eq dead_fetch failed_page_def
        create_message_def sample_llm_def)

end
